theory Spec2Isabelle
  imports Complex_Main "HOL-Library.Word" "HOL-Library.AList" "HOL-Library.Sublist"
begin

unbundle bit_operations_syntax

section \<open>Seeded hashing\<close>

text \<open>
  A JavaScript string is a sequence of UTF-16 code units; \<open>charCodeAt\<close> reads one of them.
  The hashes below work on the list of code units. The seeds of the program (chunk keys,
  island ids, salts, printed numbers) are ASCII, so \<open>units\<close> reads a HOL string.
\<close>

definition units :: "string \<Rightarrow> nat list" where
  "units s = map of_char s"

text \<open>
  One round of both hash loops: \<open>hash = ((hash << 5) - hash) + char; hash = hash & hash\<close>.
  The value kept in \<open>hash\<close> is always a 32-bit integer (\<open>&\<close> applies ToInt32), the
  intermediate sum is exact in a double, so the round is arithmetic modulo \<open>2 ^ 32\<close>.
\<close>

definition hashStep :: "32 word \<Rightarrow> nat \<Rightarrow> 32 word" where
  "hashStep hash c = (push_bit 5 hash - hash) + of_nat c"

text \<open>\<open>IslandGenerator.hashCode\<close>: every code unit, then \<open>Math.abs\<close>.\<close>

definition hashCode :: "nat list \<Rightarrow> int" where
  "hashCode str = \<bar>sint (foldl hashStep 0 str)\<bar>"

text \<open>\<open>ChunkManager.simpleHash\<close>: the loop stops at \<open>Math.min(str.length, 10)\<close>.\<close>

definition simpleHash :: "nat list \<Rightarrow> int" where
  "simpleHash str =
     (if length str = 0 then 0
      else \<bar>sint (foldl hashStep 0 (take (min (length str) 10) str))\<bar>)"

text \<open>
  The hash as the specification words it: start from 0, for every character
  \<open>hash = hash * 31 + charCode\<close> wrapped to 32 bits, magnitude at the end.
\<close>

definition polyHash :: "nat list \<Rightarrow> int" where
  "polyHash str = \<bar>sint (foldl (\<lambda>h c. h * 31 + of_nat c) (0 :: 32 word) str)\<bar>"

section \<open>Numbers in strings\<close>

text \<open>
  Template literals print a number in decimal; \<open>parseInt\<close> reads an optional sign and
  the longest run of digits, and gives \<open>NaN\<close> (here \<open>None\<close>) when there is no digit.
  Chunk coordinates are integers (\<open>Math.floor\<close> of a quotient), far below \<open>1e21\<close>.
\<close>

definition digitChar :: "nat \<Rightarrow> char" where
  "digitChar d = ''0123456789'' ! (d mod 10)"

function show_nat :: "nat \<Rightarrow> string" where
  "show_nat n = (if n < 10 then [digitChar n] else show_nat (n div 10) @ [digitChar (n mod 10)])"
  by pat_completeness auto
termination
  by (relation "measure id") auto

declare show_nat.simps [simp del]

definition show_int :: "int \<Rightarrow> string" where
  "show_int i = (if i < 0 then CHR ''-'' # show_nat (nat (- i)) else show_nat (nat i))"

definition isDigit :: "char \<Rightarrow> bool" where
  "isDigit c = (c \<in> set ''0123456789'')"

definition digitVal :: "char \<Rightarrow> nat" where
  "digitVal c = of_char c - 48"

definition parseDigits :: "string \<Rightarrow> nat option" where
  "parseDigits s =
     (let ds = takeWhile isDigit s
      in if ds = [] then None else Some (foldl (\<lambda>acc c. acc * 10 + digitVal c) 0 ds))"

definition parseInt :: "string \<Rightarrow> int option" where
  "parseInt s =
     (case s of
        [] \<Rightarrow> None
      | c # rest \<Rightarrow>
          if c = CHR ''-'' then map_option (\<lambda>n. - int n) (parseDigits rest)
          else if c = CHR ''+'' then map_option int (parseDigits rest)
          else map_option int (parseDigits s))"

text \<open>\<open>str.split('_')\<close>.\<close>

fun split_us :: "string \<Rightarrow> string list" where
  "split_us [] = [[]]"
| "split_us (c # cs) =
     (if c = CHR ''_'' then [] # split_us cs
      else (case split_us cs of [] \<Rightarrow> [[c]] | p # ps \<Rightarrow> (c # p) # ps))"

text \<open>
  \<open>Number.prototype.toString\<close> on the non-integers that are printed into seeds
  (\<open>0.8\<close>, \<open>1.2\<close>, \<open>6.99\<close>, ...): numbers are rationals here, and a rational with
  a finite decimal expansion prints as that expansion, as the nearest double does.
\<close>

fun fracDigits :: "nat \<Rightarrow> rat \<Rightarrow> string" where
  "fracDigits 0 f = []"
| "fracDigits (Suc n) f =
     (if f = 0 then []
      else digitChar (nat \<lfloor>f * 10\<rfloor>) # fracDigits n (f * 10 - of_int \<lfloor>f * 10\<rfloor>))"

definition numToString :: "rat \<Rightarrow> string" where
  "numToString r =
     (let a = \<bar>r\<bar>; ip = \<lfloor>a\<rfloor>; f = a - of_int ip
      in (if r < 0 then ''-'' else []) @ show_nat (nat ip) @
         (if f = 0 then [] else CHR ''.'' # fracDigits 17 f))"

text \<open>\<open>Math.round\<close> rounds a half towards plus infinity.\<close>

definition Math_round :: "rat \<Rightarrow> int" where
  "Math_round r = \<lfloor>r + 1 / 2\<rfloor>"

section \<open>Records of the world store\<close>

text \<open>
  The declarations of \<open>IslandData\<close> and \<open>Biome\<close> live in a types module that is not
  part of the sources at hand; the records below have the fields that the code reads and
  writes. Field names that collide with HOL constants carry a prime. Numbers that are
  doubles in the program are rationals here; no theorem depends on rounding.

  A three.js object is known by its identity. \<open>Object3D\<close> values carry an allocation
  number (the identity) and, as an annotation, the id they were created for.
\<close>

datatype Object3D =
    IslandGroup nat string
  | BillboardMesh nat string
  | PlaceholderMesh nat string

record Pos =
  pos_x :: rat
  pos_y :: rat
  pos_z :: rat

record OutdoorData =
  image' :: string
  url :: string
  active :: bool
  adRank :: int
  lastInteractionTime :: "int option"
  billboard :: "Object3D option"

record IslandData =
  id' :: string
  pos :: Pos
  biome :: string
  size' :: rat
  name :: "string option"
  chunk :: string
  outdoor :: "OutdoorData option"
  mesh :: "Object3D option"
  label :: "nat option"

record Biome =
  biome_name :: string
  color :: nat

definition STORAGE_KEY_DATA :: string where "STORAGE_KEY_DATA = ''islandData''"
definition STORAGE_KEY_CHUNKS :: string where "STORAGE_KEY_CHUNKS = ''generatedChunks''"
definition CHUNK_SIZE :: int where "CHUNK_SIZE = 100"
definition VIEW_DISTANCE :: int where "VIEW_DISTANCE = 2"
definition ISLANDS_PER_CHUNK_min :: int where "ISLANDS_PER_CHUNK_min = 3"
definition ISLANDS_PER_CHUNK_max :: int where "ISLANDS_PER_CHUNK_max = 6"
definition ISLAND_SIZE_RANGE_min :: rat where "ISLAND_SIZE_RANGE_min = 5"
definition ISLAND_SIZE_RANGE_max :: rat where "ISLAND_SIZE_RANGE_max = 10"
definition MAX_ADS_PER_CHUNK :: nat where "MAX_ADS_PER_CHUNK = 1"
definition AD_SPAWN_CHANCE :: rat where "AD_SPAWN_CHANCE = 15 / 100"
definition STARTING_CHUNK_AD_BOOST :: rat where "STARTING_CHUNK_AD_BOOST = 2"
definition STARTING_AREA_RADIUS :: int where "STARTING_AREA_RADIUS = 2"

record AdTier =
  rank :: int
  sizeBoost :: rat
  tier_name :: string

definition AD_RANK_TIERS :: "AdTier list" where
  "AD_RANK_TIERS =
     [\<lparr>rank = 10, sizeBoost = 17 / 10, tier_name = ''Premium Plus''\<rparr>,
      \<lparr>rank = 8, sizeBoost = 16 / 10, tier_name = ''Premium''\<rparr>,
      \<lparr>rank = 6, sizeBoost = 15 / 10, tier_name = ''Plus''\<rparr>,
      \<lparr>rank = 4, sizeBoost = 14 / 10, tier_name = ''Standard''\<rparr>,
      \<lparr>rank = 2, sizeBoost = 13 / 10, tier_name = ''Basic''\<rparr>]"

definition BIOMES :: "Biome list" where
  "BIOMES =
     [\<lparr>biome_name = ''Jungle'', color = 0x228B22\<rparr>,
      \<lparr>biome_name = ''Desert'', color = 0xC2B280\<rparr>,
      \<lparr>biome_name = ''Snow'', color = 0xFFFFFF\<rparr>,
      \<lparr>biome_name = ''Volcano'', color = 0x8B0000\<rparr>]"

text \<open>An array read: \<open>None\<close> is \<open>undefined\<close>, whose field access throws a TypeError.\<close>

definition arrayAt :: "'a list \<Rightarrow> int \<Rightarrow> 'a option" where
  "arrayAt xs i = (if 0 \<le> i \<and> nat i < length xs then Some (xs ! nat i) else None)"

text \<open>A JavaScript \<open>Set\<close> of strings keeps insertion order: a list without repetition.\<close>

definition setAdd :: "'a list \<Rightarrow> 'a \<Rightarrow> 'a list" where
  "setAdd xs v = (if v \<in> set xs then xs else xs @ [v])"

definition setFromList :: "'a list \<Rightarrow> 'a list" where
  "setFromList xs = foldl setAdd [] xs"

section \<open>DataManager\<close>

text \<open>
  \<open>localStorage\<close> holds two items. An item is absent, or text that \<open>JSON.parse\<close>
  rejects, or the JSON of a value; \<open>JSON.stringify\<close> followed by \<open>JSON.parse\<close> gives
  the value back, so the item keeps the value itself.
\<close>

datatype 'a item = NoItem | BadJson | Json 'a

text \<open>
  What \<open>const { mesh, label, ...rest } = island\<close> leaves in \<open>rest\<close>: every field of the
  record but \<open>mesh\<close> and \<open>label\<close>. The field \<open>outdoor\<close> is copied as it is.
\<close>

record StoredIsland =
  st_id :: string
  st_pos :: Pos
  st_biome :: string
  st_size :: rat
  st_name :: "string option"
  st_chunk :: string
  st_outdoor :: "OutdoorData option"

definition rest :: "IslandData \<Rightarrow> StoredIsland" where
  "rest island =
     \<lparr>st_id = id' island, st_pos = pos island, st_biome = biome island,
      st_size = size' island, st_name = name island, st_chunk = chunk island,
      st_outdoor = outdoor island\<rparr>"

text \<open>A parsed record: the stored fields, no \<open>mesh\<close> and no \<open>label\<close>.\<close>

definition parsed :: "StoredIsland \<Rightarrow> IslandData" where
  "parsed r =
     \<lparr>id' = st_id r, pos = st_pos r, biome = st_biome r, size' = st_size r,
      name = st_name r, chunk = st_chunk r, outdoor = st_outdoor r,
      mesh = None, label = None\<rparr>"

record DataManager =
  islandData :: "(string \<times> IslandData) list"
  generatedChunks :: "string list"
  storedData :: "StoredIsland list item"
  storedChunks :: "string list item"

text \<open>\<open>Object.values\<close> of the island table, in insertion order.\<close>

definition Object_values :: "(string \<times> IslandData) list \<Rightarrow> IslandData list" where
  "Object_values m = map snd m"

definition loadData :: "'a DataManager_scheme \<Rightarrow> 'a DataManager_scheme" where
  "loadData d =
     (let d1 = (case storedData d of
                  Json parsedData \<Rightarrow>
                    d\<lparr>islandData :=
                        foldl (\<lambda>acc island. AList.update (id' island) island acc) []
                          (map parsed parsedData)\<rparr>
                | BadJson \<Rightarrow> d\<lparr>islandData := []\<rparr>
                | NoItem \<Rightarrow> d)
      in case storedChunks d1 of
           Json chunks \<Rightarrow> d1\<lparr>generatedChunks := setFromList chunks\<rparr>
         | BadJson \<Rightarrow> d1\<lparr>generatedChunks := []\<rparr>
         | NoItem \<Rightarrow> d1)"

definition saveData :: "'a DataManager_scheme \<Rightarrow> 'a DataManager_scheme" where
  "saveData d =
     d\<lparr>storedData := Json (map rest (Object_values (islandData d))),
       storedChunks := Json (generatedChunks d)\<rparr>"

text \<open>A fresh \<open>DataManager\<close> over the same \<open>localStorage\<close>: the constructor loads.\<close>

definition newDataManager :: "'a DataManager_scheme \<Rightarrow> DataManager" where
  "newDataManager d =
     loadData \<lparr>islandData = [], generatedChunks = [],
               storedData = storedData d, storedChunks = storedChunks d\<rparr>"

definition addIsland :: "IslandData \<Rightarrow> 'a DataManager_scheme \<Rightarrow> 'a DataManager_scheme" where
  "addIsland island d = d\<lparr>islandData := AList.update (id' island) island (islandData d)\<rparr>"

definition addGeneratedChunk :: "string \<Rightarrow> 'a DataManager_scheme \<Rightarrow> 'a DataManager_scheme" where
  "addGeneratedChunk chunkKey d = d\<lparr>generatedChunks := setAdd (generatedChunks d) chunkKey\<rparr>"

text \<open>The transient handles of a record as it is stored: none should be left.\<close>

definition storedHandles :: "StoredIsland \<Rightarrow> Object3D list" where
  "storedHandles r =
     (case st_outdoor r of
        None \<Rightarrow> []
      | Some ad \<Rightarrow> (case billboard ad of None \<Rightarrow> [] | Some b \<Rightarrow> [b]))"

section \<open>IslandGenerator: geometry and its caches\<close>

text \<open>
  Vertex positions are computed by three.js primitives and by trigonometry on doubles.
  They are kept symbolic: a geometry is the primitive it was built from, or the result of
  one of the vertex loops of the generator applied to a primitive, together with the
  scalars that loop reads. Equal terms stand for equal vertex arrays. A cylinder of height
  \<open>h\<close> has its top ring (or apex) at \<open>y = h / 2\<close> and its base at \<open>y = - h / 2\<close>, and
  no vertex loop moves the top point of a jagged mountain, so different heights stand for
  different arrays.

  \<open>CylinderGeometry\<close>: top radius, bottom radius, height, radial segments, height
  segments, open-ended. \<open>SphereGeometry\<close>: radius, width segments, height segments (the
  angles are the constants of \<open>createSmoothHill\<close>). \<open>PlaneGeometry\<close>: width, height.
\<close>

datatype BufferGeometry =
    CylinderGeometry rat rat rat int int bool
  | SphereGeometry rat int int
  | PlaneGeometry rat rat
  | JaggedNoise BufferGeometry rat rat rat
  | VolcanoNoise BufferGeometry rat rat rat rat rat
  | ArchipelagoWaves BufferGeometry rat rat rat rat rat

text \<open>
  Geometry objects live in a store indexed by their identity; \<open>geometryCount\<close> is the
  next unused identity. The two caches map a key to the identity of the cached object.
  Textures and materials are not modelled.
\<close>

record Mesh =
  geometry :: nat
  material_color :: nat

record Generator =
  geometries :: "nat \<Rightarrow> BufferGeometry"
  geometryCount :: nat
  geometryCache :: "(string \<times> nat) list"
  billboardGeometryCache :: "(string \<times> nat) list"

definition newGenerator :: Generator where
  "newGenerator =
     \<lparr>geometries = (\<lambda>_. PlaneGeometry 0 0), geometryCount = 0,
      geometryCache = [], billboardGeometryCache = []\<rparr>"

definition newGeometry :: "BufferGeometry \<Rightarrow> Generator \<Rightarrow> nat \<times> Generator" where
  "newGeometry g G =
     (geometryCount G,
      G\<lparr>geometries := (geometries G)(geometryCount G := g),
        geometryCount := Suc (geometryCount G)\<rparr>)"

text \<open>\<open>BufferGeometry.clone()\<close>: a new object with a copy of the buffers.\<close>

definition clone :: "nat \<Rightarrow> Generator \<Rightarrow> nat \<times> Generator" where
  "clone a G = newGeometry (geometries G a) G"

text \<open>
  Any write through a handle (\<open>setXYZ\<close>, \<open>needsUpdate\<close>, \<open>computeBoundingSphere\<close>,
  \<open>computeVertexNormals\<close>) changes the object with that identity and no other.
\<close>

definition mutateGeometry :: "nat \<Rightarrow> (BufferGeometry \<Rightarrow> BufferGeometry) \<Rightarrow> Generator \<Rightarrow> Generator" where
  "mutateGeometry a f G = G\<lparr>geometries := (geometries G)(a := f (geometries G a))\<rparr>"

text \<open>
  The closure \<open>random\<close> of \<open>createProceduralIslandMesh\<close>. Its arguments are never NaN
  and \<open>hashCode\<close> does not throw, so the two fallbacks to the middle value are left out.
\<close>

definition random :: "string \<Rightarrow> rat \<Rightarrow> rat \<Rightarrow> rat" where
  "random seed mn mx =
     (let hashInput = seed @ numToString mn @ numToString mx;
          hash = hashCode (units hashInput);
          val = of_int (hash mod 1000) / 1000
      in mn + \<bar>val\<bar> * (mx - mn))"

definition createJaggedMountain :: "int \<Rightarrow> (rat \<Rightarrow> rat \<Rightarrow> rat) \<Rightarrow> BufferGeometry" where
  "createJaggedMountain sz rnd =
     (let baseRadius = of_int sz;
          height = of_int sz * rnd (8 / 10) 1;
          segments = min 8 (max 6 \<lfloor>(of_int sz :: rat)\<rfloor>);
          heightSegments = min 3 (max 2 \<lfloor>(of_int sz :: rat) / 4\<rfloor>)
      in JaggedNoise (CylinderGeometry 0 baseRadius height segments heightSegments False)
           height (of_int sz) (rnd (8 / 10) (12 / 10)))"

definition createSmoothHill :: "int \<Rightarrow> (rat \<Rightarrow> rat \<Rightarrow> rat) \<Rightarrow> BufferGeometry" where
  "createSmoothHill sz rnd =
     (let baseRadius = (of_int sz :: rat);
          segments = min 8 (max 6 \<lfloor>(of_int sz :: rat)\<rfloor>)
      in SphereGeometry (baseRadius * (7 / 10)) segments (max 4 \<lfloor>(of_int sz :: rat) / 3\<rfloor>))"

definition createMesa :: "int \<Rightarrow> (rat \<Rightarrow> rat \<Rightarrow> rat) \<Rightarrow> BufferGeometry" where
  "createMesa sz rnd =
     (let baseRadius = (of_int sz :: rat);
          height = of_int sz * (7 / 10);
          topRadius = baseRadius * (5 / 10)
      in CylinderGeometry topRadius baseRadius height (max 6 \<lfloor>(of_int sz :: rat)\<rfloor>) 1 False)"

definition createVolcano :: "int \<Rightarrow> (rat \<Rightarrow> rat \<Rightarrow> rat) \<Rightarrow> BufferGeometry" where
  "createVolcano sz rnd =
     (let baseRadius = (of_int sz :: rat);
          height = of_int sz * rnd (8 / 10) (12 / 10);
          craterRadius = baseRadius * rnd (2 / 10) (4 / 10);
          craterDepth = height * rnd (15 / 100) (3 / 10);
          segments = max 8 \<lfloor>(of_int sz :: rat) * (12 / 10)\<rfloor>;
          heightSegments = min 4 (max 2 \<lfloor>(of_int sz :: rat) / (25 / 10)\<rfloor>)
      in VolcanoNoise
           (CylinderGeometry craterRadius baseRadius height segments heightSegments False)
           height craterRadius craterDepth (of_int sz) (rnd (9 / 10) (11 / 10)))"

definition createArchipelago :: "int \<Rightarrow> (rat \<Rightarrow> rat \<Rightarrow> rat) \<Rightarrow> BufferGeometry" where
  "createArchipelago sz rnd =
     (let baseRadius = (of_int sz :: rat);
          height = of_int sz * rnd (6 / 10) (8 / 10);
          segments = max 8 \<lfloor>(of_int sz :: rat)\<rfloor>;
          heightSegments = max 2 \<lfloor>(of_int sz :: rat) / 4\<rfloor>
      in ArchipelagoWaves
           (CylinderGeometry (of_int sz * (3 / 10)) baseRadius height segments heightSegments False)
           height baseRadius (of_int sz) (rnd (8 / 10) (12 / 10)) (rnd (9 / 10) (11 / 10)))"

definition getBiomeById :: "string \<Rightarrow> Biome option" where
  "getBiomeById biomeName = find (\<lambda>b. biome_name b = biomeName) BIOMES"

definition shapeTypeOf :: "string \<Rightarrow> int" where
  "shapeTypeOf biomeName =
     (if biomeName = ''Forest'' \<or> biomeName = ''Jungle'' then 1
      else if biomeName = ''Desert'' then 2
      else if biomeName = ''Volcano'' then 3
      else if biomeName = ''Snow'' then 0
      else if biomeName = ''Swamp'' then 4
      else 1)"

definition createShape :: "int \<Rightarrow> int \<Rightarrow> (rat \<Rightarrow> rat \<Rightarrow> rat) \<Rightarrow> BufferGeometry" where
  "createShape shapeType sizeGroup rnd =
     (if shapeType = 0 then createJaggedMountain sizeGroup rnd
      else if shapeType = 1 then createSmoothHill sizeGroup rnd
      else if shapeType = 2 then createMesa sizeGroup rnd
      else if shapeType = 3 then createVolcano sizeGroup rnd
      else if shapeType = 4 then createArchipelago sizeGroup rnd
      else CylinderGeometry 0 (of_int sizeGroup) (of_int sizeGroup * (8 / 10)) 6 1 False)"

definition cacheKeyOf :: "IslandData \<Rightarrow> Biome \<Rightarrow> string" where
  "cacheKeyOf island b =
     biome_name b @ ''_'' @ show_int (shapeTypeOf (biome_name b)) @ ''_'' @
     show_int (Math_round (size' island))"

text \<open>
  \<open>createProceduralIslandMesh\<close>. The seed is the island id; \<open>fallbackSeed\<close> is the
  text of \<open>Math.random()\<close> that replaces an empty id.
\<close>

definition createProceduralIslandMesh ::
  "IslandData \<Rightarrow> Biome \<Rightarrow> string \<Rightarrow> Generator \<Rightarrow> Mesh \<times> Generator" where
  "createProceduralIslandMesh island b fallbackSeed G =
     (let seed = (if id' island = [] then fallbackSeed else id' island);
          shapeType = shapeTypeOf (biome_name b);
          sizeGroup = Math_round (size' island);
          cacheKey = cacheKeyOf island b;
          (geom, G') =
            (case map_of (geometryCache G) cacheKey of
               Some cached \<Rightarrow> clone cached G
             | None \<Rightarrow>
                 (let (g, G1) = newGeometry (createShape shapeType sizeGroup (random seed)) G;
                      (c, G2) = clone g G1
                  in (g, G2\<lparr>geometryCache := AList.update cacheKey c (geometryCache G2)\<rparr>)))
      in (\<lparr>geometry = geom, material_color = color b\<rparr>, G'))"

definition getBillboardGeometry :: "rat \<Rightarrow> rat \<Rightarrow> Generator \<Rightarrow> nat \<times> Generator" where
  "getBillboardGeometry width height G =
     (let roundedWidth = of_int (Math_round (width * 2)) / 2;
          roundedHeight = of_int (Math_round (height * 2)) / 2;
          key = numToString roundedWidth @ ''_'' @ numToString roundedHeight
      in case map_of (billboardGeometryCache G) key of
           Some cached \<Rightarrow> (cached, G)
         | None \<Rightarrow>
             (let (g, G1) = newGeometry (PlaneGeometry roundedWidth roundedHeight) G
              in (g, G1\<lparr>billboardGeometryCache :=
                          AList.update key g (billboardGeometryCache G1)\<rparr>)))"

text \<open>\<open>clearUnusedCaches\<close> and \<open>dispose\<close>, on the two geometry caches.\<close>

definition clearUnusedCaches :: "Generator \<Rightarrow> Generator" where
  "clearUnusedCaches G =
     (let G1 = (if length (geometryCache G) > 50 then G\<lparr>geometryCache := []\<rparr> else G)
      in if length (billboardGeometryCache G1) > 20
         then G1\<lparr>billboardGeometryCache := []\<rparr> else G1)"

definition dispose :: "Generator \<Rightarrow> Generator" where
  "dispose G = G\<lparr>geometryCache := [], billboardGeometryCache := []\<rparr>"

text \<open>The vertex data that a mesh shows, and the cached template of a key.\<close>

definition meshGeometry :: "Generator \<Rightarrow> Mesh \<Rightarrow> BufferGeometry" where
  "meshGeometry G m = geometries G (geometry m)"

definition cachedTemplate :: "Generator \<Rightarrow> string \<Rightarrow> BufferGeometry option" where
  "cachedTemplate G key = map_option (geometries G) (map_of (geometryCache G) key)"

section \<open>The world: ChunkManager, scene, timers\<close>

text \<open>
  One record holds what the running game mutates: the \<open>DataManager\<close> (inherited fields),
  the private fields of \<open>ChunkManager\<close>, the children of the scene, the children of the
  \<open>islandLabels\<close> element (\<open>None\<close> when the page has no such element), the
  \<open>IslandGenerator\<close>, the callbacks handed to \<open>setTimeout\<close> and not yet run, and the
  stream that \<open>Math.random()\<close> reads.
\<close>

record Task =
  task_chunkKey :: string
  task_chunkX :: int
  task_chunkZ :: int
  task_distanceToPlayer :: int
  task_delay :: nat

record State = DataManager +
  loadedChunks :: "string list"
  pendingChunks :: "string list"
  isGeneratingChunk :: bool
  lowPolyIslands :: "(string \<times> Object3D) list"
  chunkUpdateCounter :: nat
  scene :: "Object3D list"
  islandLabels :: "nat list option"
  islandGenerator :: Generator
  timeouts :: "Task list"
  objectCount :: nat
  randomStream :: "nat \<Rightarrow> rat"
  randomIndex :: nat

definition lowDetailDistance :: int where "lowDetailDistance = VIEW_DISTANCE"
definition highDetailDistance :: int where "highDetailDistance = 1"

definition Math_random :: "State \<Rightarrow> rat \<times> State" where
  "Math_random s = (randomStream s (randomIndex s), s\<lparr>randomIndex := Suc (randomIndex s)\<rparr>)"

text \<open>An object is a child of the scene at most once: \<open>add\<close> moves it to the end.\<close>

definition scene_add :: "Object3D \<Rightarrow> State \<Rightarrow> State" where
  "scene_add obj s = s\<lparr>scene := filter (\<lambda>c. c \<noteq> obj) (scene s) @ [obj]\<rparr>"

definition scene_remove :: "Object3D \<Rightarrow> State \<Rightarrow> State" where
  "scene_remove obj s = s\<lparr>scene := filter (\<lambda>c. c \<noteq> obj) (scene s)\<rparr>"

definition chunkKeyOf :: "int \<Rightarrow> int \<Rightarrow> string" where
  "chunkKeyOf chunkX chunkZ = show_int chunkX @ ''_'' @ show_int chunkZ"

definition getChunkKey :: "rat \<Rightarrow> rat \<Rightarrow> string" where
  "getChunkKey px pz = chunkKeyOf \<lfloor>px / of_int CHUNK_SIZE\<rfloor> \<lfloor>pz / of_int CHUNK_SIZE\<rfloor>"

subsection \<open>Island meshes\<close>

text \<open>
  \<open>IslandGenerator.addOutdoorToIsland\<close>: the billboard takes the shared geometry of its
  rounded size and is stored in \<open>outdoor.billboard\<close>. Pedestal, pillars, materials and
  the texture are children or attributes of the group and are not tracked.
\<close>

definition addOutdoorToIsland :: "IslandData \<Rightarrow> State \<Rightarrow> IslandData \<times> State" where
  "addOutdoorToIsland island s =
     (case outdoor island of
        None \<Rightarrow> (island, s)
      | Some ad \<Rightarrow>
          (let rank' = (if adRank ad = 0 then 1 else adRank ad);
               rankSizeMultiplier = 1 + of_int rank' / 20;
               billboardWidth = size' island * (12 / 10) * rankSizeMultiplier;
               billboardHeight = size' island * (8 / 10) * rankSizeMultiplier;
               (g, G) = getBillboardGeometry billboardWidth billboardHeight (islandGenerator s);
               b = BillboardMesh (objectCount s) (id' island)
           in (island\<lparr>outdoor := Some (ad\<lparr>billboard := Some b\<rparr>)\<rparr>,
               s\<lparr>islandGenerator := G, objectCount := Suc (objectCount s)\<rparr>)))"

text \<open>
  \<open>IslandGenerator.addIslandMesh\<close>. Validation and the fallback cone act on the terrain
  mesh's own geometry, a child of the group; the group enters the scene either way.
\<close>

definition IslandGenerator_addIslandMesh :: "IslandData \<Rightarrow> State \<Rightarrow> IslandData \<times> State" where
  "IslandGenerator_addIslandMesh island s =
     (case getBiomeById (biome island) of
        None \<Rightarrow> (island, s)
      | Some b \<Rightarrow>
          (let islandGroup = IslandGroup (objectCount s) (id' island);
               s1 = s\<lparr>objectCount := Suc (objectCount s)\<rparr>;
               (fallbackSeed, s2) =
                 (if id' island = [] then (let (r, s') = Math_random s1 in (numToString r, s'))
                  else ([], s1));
               (terrainMesh, G) =
                 createProceduralIslandMesh island b fallbackSeed (islandGenerator s2);
               s3 = s2\<lparr>islandGenerator := G\<rparr>;
               (island1, s4) =
                 (case outdoor island of
                    Some ad \<Rightarrow> if active ad then addOutdoorToIsland island s3 else (island, s3)
                  | None \<Rightarrow> (island, s3));
               s5 = scene_add islandGroup s4
           in (island1\<lparr>mesh := Some islandGroup\<rparr>, s5)))"

definition IslandGenerator_removeIslandMesh :: "IslandData \<Rightarrow> State \<Rightarrow> IslandData \<times> State" where
  "IslandGenerator_removeIslandMesh island s =
     (case mesh island of
        Some m \<Rightarrow> (island\<lparr>mesh := None\<rparr>, scene_remove m s)
      | None \<Rightarrow> (island, s))"

definition createIslandLabel :: "IslandData \<Rightarrow> State \<Rightarrow> IslandData \<times> State" where
  "createIslandLabel island s =
     (if label island \<noteq> None then (island, s)
      else case islandLabels s of
             None \<Rightarrow> (island, s)
           | Some container \<Rightarrow>
               (island\<lparr>label := Some (objectCount s)\<rparr>,
                s\<lparr>islandLabels := Some (container @ [objectCount s]),
                  objectCount := Suc (objectCount s)\<rparr>))"

text \<open>\<open>ChunkManager.addIslandMesh\<close> and \<open>ChunkManager.removeIslandMesh\<close>.\<close>

definition addIslandMesh :: "IslandData \<Rightarrow> State \<Rightarrow> IslandData \<times> State" where
  "addIslandMesh island s =
     (let (island1, s1) = IslandGenerator_addIslandMesh island s
      in if name island1 \<noteq> None \<and> name island1 \<noteq> Some []
         then createIslandLabel island1 s1 else (island1, s1))"

definition removeIslandMesh :: "IslandData \<Rightarrow> State \<Rightarrow> IslandData \<times> State" where
  "removeIslandMesh island s =
     (let (island1, s1) = IslandGenerator_removeIslandMesh island s
      in case label island1 of
           Some l \<Rightarrow>
             (island1\<lparr>label := None\<rparr>,
              s1\<lparr>islandLabels := map_option (filter (\<lambda>c. c \<noteq> l)) (islandLabels s1)\<rparr>)
         | None \<Rightarrow> (island1, s1))"

text \<open>
  \<open>Object.values(islandData).filter(p).forEach(f)\<close>, where \<open>f\<close> mutates the island it is
  given and the world around it: the records of the table are visited in order, each
  selected one is replaced by what \<open>f\<close> makes of it.
\<close>

fun eachIsland ::
  "(IslandData \<Rightarrow> bool) \<Rightarrow> (IslandData \<Rightarrow> State \<Rightarrow> IslandData \<times> State) \<Rightarrow>
   (string \<times> IslandData) list \<Rightarrow> State \<Rightarrow> (string \<times> IslandData) list \<times> State" where
  "eachIsland p f [] s = ([], s)"
| "eachIsland p f ((k, island) # es) s =
     (if p island
      then (let (island', s1) = f island s; (es', s2) = eachIsland p f es s1
            in ((k, island') # es', s2))
      else (let (es', s2) = eachIsland p f es s in ((k, island) # es', s2)))"

definition forEachIsland ::
  "(IslandData \<Rightarrow> bool) \<Rightarrow> (IslandData \<Rightarrow> State \<Rightarrow> IslandData \<times> State) \<Rightarrow> State \<Rightarrow> State" where
  "forEachIsland p f s =
     (let (es, s1) = eachIsland p f (islandData s) s in s1\<lparr>islandData := es\<rparr>)"

definition loadChunk :: "string \<Rightarrow> State \<Rightarrow> State" where
  "loadChunk key s =
     (if key \<in> set (loadedChunks s) then s
      else forEachIsland (\<lambda>island. chunk island = key) addIslandMesh
             (s\<lparr>loadedChunks := setAdd (loadedChunks s) key\<rparr>))"

definition unloadChunk :: "string \<Rightarrow> State \<Rightarrow> State" where
  "unloadChunk key s =
     (if key \<notin> set (loadedChunks s) then s
      else forEachIsland (\<lambda>island. chunk island = key) removeIslandMesh
             (s\<lparr>loadedChunks := filter (\<lambda>k. k \<noteq> key) (loadedChunks s)\<rparr>))"

subsection \<open>Placeholders\<close>

definition placeholderIdOf :: "string \<Rightarrow> nat \<Rightarrow> string" where
  "placeholderIdOf chunkKey i = ''placeholder_'' @ chunkKey @ ''_'' @ show_nat i"

text \<open>
  One round of the loop of \<open>createPlaceholdersForChunk\<close>. Position, size and colour of
  the cone are not tracked, the draw of \<open>Math.random()\<close> for its size is.
\<close>

definition createPlaceholder :: "string \<Rightarrow> State \<Rightarrow> nat \<Rightarrow> State" where
  "createPlaceholder chunkKey s i =
     (let placeholderId = placeholderIdOf chunkKey i
      in if map_of (lowPolyIslands s) placeholderId \<noteq> None then s
         else (let (r, s1) = Math_random s;
                   placeholder = PlaceholderMesh (objectCount s1) placeholderId;
                   s2 = scene_add placeholder (s1\<lparr>objectCount := Suc (objectCount s1)\<rparr>)
               in s2\<lparr>lowPolyIslands :=
                       AList.update placeholderId placeholder (lowPolyIslands s2)\<rparr>))"

definition createPlaceholdersForChunk :: "int \<Rightarrow> int \<Rightarrow> string \<Rightarrow> State \<Rightarrow> State" where
  "createPlaceholdersForChunk chunkX chunkZ chunkKey s =
     (let (r, s1) = Math_random s;
          islandCount = min 3 (1 + \<lfloor>r * 2\<rfloor>)
      in foldl (createPlaceholder chunkKey) s1 [0 ..< nat islandCount])"

text \<open>\<open>removePlaceholdersForChunk\<close>: every entry whose id starts with the prefix.\<close>

definition removePlaceholdersForChunk :: "string \<Rightarrow> State \<Rightarrow> State" where
  "removePlaceholdersForChunk chunkKey s =
     foldl (\<lambda>s (pid, placeholder).
              if prefix (''placeholder_'' @ chunkKey) pid
              then (scene_remove placeholder s)
                     \<lparr>lowPolyIslands := AList.delete pid (lowPolyIslands s)\<rparr>
              else s)
       s (lowPolyIslands s)"

subsection \<open>Generation of a chunk\<close>

text \<open>
  The two seeded random functions. \<open>simpleHash\<close> does not throw, so the fallback to
  \<open>Math.random()\<close> in their \<open>catch\<close> is left out.
\<close>

definition getDetailedSeedRandom :: "string \<Rightarrow> rat \<Rightarrow> rat \<Rightarrow> string \<Rightarrow> rat" where
  "getDetailedSeedRandom key mn mx salt =
     (let combinedSeed = key @ salt @ numToString mn @ numToString mx;
          hash = simpleHash (units combinedSeed);
          val = of_int (hash mod 1000) / 1000
      in mn + \<bar>val\<bar> * (mx - mn))"

definition getSimpleSeedRandom :: "string \<Rightarrow> rat \<Rightarrow> rat \<Rightarrow> string \<Rightarrow> rat" where
  "getSimpleSeedRandom key mn mx salt =
     (let hash = simpleHash (units (key @ salt))
      in mn + of_int (hash mod 100) / 100 * (mx - mn))"

text \<open>The locals of the island loop of \<open>generateChunk\<close> and the table it writes.\<close>

record GenLoop =
  adIslandPositions :: "(rat \<times> rat) list"
  adIslandsCreated :: nat
  table :: "(string \<times> IslandData) list"

text \<open>
  One round of the island loop. \<open>None\<close>: a read past the end of \<open>BIOMES\<close> or
  \<open>AD_RANK_TIERS\<close> gave \<open>undefined\<close> and the field access threw.
  \<open>isStartingArea\<close> compares squares, which is exact on integers.
\<close>

definition generateIsland ::
  "int \<Rightarrow> int \<Rightarrow> string \<Rightarrow> (rat \<Rightarrow> rat \<Rightarrow> string \<Rightarrow> rat) \<Rightarrow> bool \<Rightarrow> GenLoop \<Rightarrow> nat \<Rightarrow> GenLoop option" where
  "generateIsland chunkX chunkZ key seedFunction isStartingArea l i =
     (let n = show_nat i;
          posX = of_int (chunkX * CHUNK_SIZE) + seedFunction 0 (of_int CHUNK_SIZE) (''posX_'' @ n);
          posZ = of_int (chunkZ * CHUNK_SIZE) + seedFunction 0 (of_int CHUNK_SIZE) (''posZ_'' @ n);
          sz = seedFunction ISLAND_SIZE_RANGE_min ISLAND_SIZE_RANGE_max (''size_'' @ n);
          biomeIndex = \<lfloor>seedFunction 0 (of_nat (length BIOMES)) (''biome_'' @ n)\<rfloor>
      in case arrayAt BIOMES biomeIndex of
           None \<Rightarrow> None
         | Some b \<Rightarrow>
            (let canBeAdIsland =
                   (adIslandsCreated l < MAX_ADS_PER_CHUNK \<and>
                    \<not> list_ex
                         (\<lambda>adPos. (posX - fst adPos)\<^sup>2 + (posZ - snd adPos)\<^sup>2
                                    < (of_int CHUNK_SIZE / 3)\<^sup>2)
                         (adIslandPositions l));
                 adChance = (if isStartingArea then AD_SPAWN_CHANCE * STARTING_CHUNK_AD_BOOST
                             else AD_SPAWN_CHANCE);
                 adRandom = seedFunction 0 1 (''adRoll_'' @ n);
                 hasOutdoor = (canBeAdIsland \<and> adRandom < adChance)
             in if hasOutdoor then
                  (let tiers = of_nat (length AD_RANK_TIERS);
                       adTierIndex =
                         (if isStartingArea
                          then min (int (length AD_RANK_TIERS) - 1)
                                 \<lfloor>seedFunction 0 tiers (''adTier_'' @ n) * (7 / 10) + 1\<rfloor>
                          else \<lfloor>seedFunction 0 tiers (''adTier_'' @ n)\<rfloor>)
                   in case arrayAt AD_RANK_TIERS adTierIndex of
                        None \<Rightarrow> None
                      | Some adTier \<Rightarrow>
                         (let adBiome = (if seedFunction 0 1 (''adBiomeType_'' @ n) < 1 / 2
                                         then ''Desert'' else ''Volcano'');
                              adIndex = 1 + min 5 \<lfloor>seedFunction 0 6 (''adImage_'' @ n)\<rfloor>;
                              island =
                                \<lparr>id' = ''ad_island_'' @ show_int chunkX @ ''_'' @ show_int chunkZ
                                         @ ''_'' @ n @ ''_rank'' @ show_int (rank adTier),
                                 pos = \<lparr>pos_x = posX, pos_y = 0, pos_z = posZ\<rparr>,
                                 biome = adBiome,
                                 size' = sz * sizeBoost adTier,
                                 name = None,
                                 chunk = key,
                                 outdoor = Some
                                   \<lparr>image' = ''https://picsum.photos/seed/'' @ show_int adIndex
                                              @ ''/300/200'',
                                    url = ''https://example.com/ad/'' @ show_int adIndex
                                          @ ''_tier_'' @ tier_name adTier,
                                    active = True,
                                    adRank = rank adTier,
                                    lastInteractionTime = None,
                                    billboard = None\<rparr>,
                                 mesh = None, label = None\<rparr>
                          in Some \<lparr>adIslandPositions = adIslandPositions l @ [(posX, posZ)],
                                   adIslandsCreated = Suc (adIslandsCreated l),
                                   table = AList.update (id' island) island (table l)\<rparr>))
                else
                  (let island =
                         \<lparr>id' = ''island_'' @ show_int chunkX @ ''_'' @ show_int chunkZ @ ''_'' @ n,
                          pos = \<lparr>pos_x = posX, pos_y = 0, pos_z = posZ\<rparr>,
                          biome = biome_name b,
                          size' = sz,
                          name = None,
                          chunk = key,
                          outdoor = None,
                          mesh = None, label = None\<rparr>
                   in Some (l\<lparr>table := AList.update (id' island) island (table l)\<rparr>))))"

text \<open>The island loop: it stops where a round throws, keeping what was written.\<close>

fun generateIslands ::
  "(GenLoop \<Rightarrow> nat \<Rightarrow> GenLoop option) \<Rightarrow> nat list \<Rightarrow> GenLoop \<Rightarrow> GenLoop \<times> bool" where
  "generateIslands body [] l = (l, True)"
| "generateIslands body (i # is) l =
     (case body l i of None \<Rightarrow> (l, False) | Some l' \<Rightarrow> generateIslands body is l')"

text \<open>
  \<open>generateChunk\<close>. The flag of the result says that the call returned; \<open>False\<close> is
  an exception out of the island loop, which leaves the chunk unmarked.
\<close>

definition generateChunk :: "int \<Rightarrow> int \<Rightarrow> bool \<Rightarrow> State \<Rightarrow> State \<times> bool" where
  "generateChunk chunkX chunkZ highDetail s =
     (let key = chunkKeyOf chunkX chunkZ
      in if key \<in> set (generatedChunks s) then (s, True)
         else
          (let seedFunction = (if highDetail then getDetailedSeedRandom key
                               else getSimpleSeedRandom key);
               isStartingArea =
                 (chunkX * chunkX + chunkZ * chunkZ \<le> STARTING_AREA_RADIUS * STARTING_AREA_RADIUS);
               minIslands = (if highDetail then ISLANDS_PER_CHUNK_min
                             else max 1 (ISLANDS_PER_CHUNK_min - 1));
               maxIslands = (if highDetail then ISLANDS_PER_CHUNK_max
                             else max 2 (ISLANDS_PER_CHUNK_max - 2));
               islandCount =
                 \<lfloor>seedFunction (of_int minIslands) (of_int maxIslands + 99 / 100) []\<rfloor>;
               (l, returned) =
                 generateIslands
                   (generateIsland chunkX chunkZ key seedFunction isStartingArea)
                   [0 ..< nat islandCount]
                   \<lparr>adIslandPositions = [], adIslandsCreated = 0, table = islandData s\<rparr>;
               s1 = s\<lparr>islandData := table l\<rparr>
           in if \<not> returned then (s1, False)
              else
               (let s2 = s1\<lparr>generatedChunks := setAdd (generatedChunks s1) key\<rparr>;
                    s3 = removePlaceholdersForChunk key s2;
                    (r, s4) = Math_random s3
                in (if r < 2 / 10 then saveData s4 else s4, True))))"

subsection \<open>The queue of pending chunks\<close>

datatype Fault = NaNChunkCoordinate

text \<open>
  \<open>processNextPendingChunk\<close>. Where \<open>parseInt\<close> gives \<open>NaN\<close> the program goes on with
  \<open>NaN\<close> coordinates; chunk coordinates are integers here, so that case is a fault of
  the model. The callback given to \<open>setTimeout\<close> is kept as the values it closes over.
\<close>

definition processNextPendingChunk :: "Pos \<Rightarrow> State \<Rightarrow> Fault + State" where
  "processNextPendingChunk playerPosition s =
     (if isGeneratingChunk s \<or> length (pendingChunks s) = 0 then Inr s
      else
       (let s1 = s\<lparr>isGeneratingChunk := True\<rparr>;
            chunkKey = hd (pendingChunks s1);
            s2 = s1\<lparr>pendingChunks := tl (pendingChunks s1)\<rparr>
        in if chunkKey = [] then Inr (s2\<lparr>isGeneratingChunk := False\<rparr>)
           else
            (let parts = split_us chunkKey;
                 chunkXStr = (if 0 < length parts then Some (parts ! 0) else None);
                 chunkZStr = (if 1 < length parts then Some (parts ! 1) else None)
             in case (Option.bind chunkXStr parseInt, Option.bind chunkZStr parseInt) of
                  (Some chunkX, Some chunkZ) \<Rightarrow>
                    (let playerChunkX = \<lfloor>pos_x playerPosition / of_int CHUNK_SIZE\<rfloor>;
                         playerChunkZ = \<lfloor>pos_z playerPosition / of_int CHUNK_SIZE\<rfloor>;
                         distanceToPlayer = \<bar>chunkX - playerChunkX\<bar> + \<bar>chunkZ - playerChunkZ\<bar>;
                         delay = (if distanceToPlayer \<le> highDetailDistance then 0 else 100)
                     in Inr (s2\<lparr>timeouts := timeouts s2 @
                                  [\<lparr>task_chunkKey = chunkKey, task_chunkX = chunkX,
                                    task_chunkZ = chunkZ,
                                    task_distanceToPlayer = distanceToPlayer,
                                    task_delay = delay\<rparr>]\<rparr>))
                | _ \<Rightarrow> Inl NaNChunkCoordinate)))"

text \<open>The callback of \<open>setTimeout\<close>: \<open>try\<close>, \<open>catch\<close> (which only logs), \<open>finally\<close>.\<close>

definition runTimeout :: "Task \<Rightarrow> State \<Rightarrow> State" where
  "runTimeout t s =
     (let near = (task_distanceToPlayer t \<le> highDetailDistance);
          (s1, returned) = generateChunk (task_chunkX t) (task_chunkZ t) near s;
          s2 = (if returned \<and> near
                then (let key = chunkKeyOf (task_chunkX t) (task_chunkZ t)
                      in if key \<notin> set (loadedChunks s1) then loadChunk key s1 else s1)
                else s1)
      in s2\<lparr>isGeneratingChunk := False\<rparr>)"

subsection \<open>The update tick\<close>

definition offsets :: "int \<Rightarrow> (int \<times> int) list" where
  "offsets d = concat (map (\<lambda>dx. map (\<lambda>dz. (dx, dz)) [- d .. d]) [- d .. d])"

definition skipped :: "int \<times> int \<Rightarrow> bool" where
  "skipped d = (\<bar>fst d\<bar> \<le> highDetailDistance \<and> \<bar>snd d\<bar> \<le> highDetailDistance)"

text \<open>The two local sets of \<open>updateChunks\<close>, as the two loops fill them.\<close>

definition highDetailChunks :: "int \<Rightarrow> int \<Rightarrow> string list" where
  "highDetailChunks cx cz =
     foldl setAdd [] (map (\<lambda>(dx, dz). chunkKeyOf (cx + dx) (cz + dz)) (offsets highDetailDistance))"

definition lowDetailChunks :: "int \<Rightarrow> int \<Rightarrow> string list" where
  "lowDetailChunks cx cz =
     foldl setAdd (highDetailChunks cx cz)
       (map (\<lambda>(dx, dz). chunkKeyOf (cx + dx) (cz + dz))
          (filter (\<lambda>d. \<not> skipped d) (offsets lowDetailDistance)))"

definition queueChunk :: "string \<Rightarrow> State \<Rightarrow> State" where
  "queueChunk key s =
     (if key \<notin> set (generatedChunks s) \<and> key \<notin> set (pendingChunks s)
      then s\<lparr>pendingChunks := pendingChunks s @ [key]\<rparr> else s)"

definition trackHighDetail :: "int \<Rightarrow> int \<Rightarrow> State \<Rightarrow> int \<times> int \<Rightarrow> State" where
  "trackHighDetail cx cz s d = queueChunk (chunkKeyOf (cx + fst d) (cz + snd d)) s"

definition trackLowDetail :: "int \<Rightarrow> int \<Rightarrow> State \<Rightarrow> int \<times> int \<Rightarrow> State" where
  "trackLowDetail cx cz s d =
     (if skipped d then s
      else (let chunkX = cx + fst d; chunkZ = cz + snd d;
                key = chunkKeyOf chunkX chunkZ;
                s1 = queueChunk key s
            in if key \<notin> set (loadedChunks s1) \<and> key \<notin> set (generatedChunks s1)
               then createPlaceholdersForChunk chunkX chunkZ key s1 else s1))"

text \<open>The lookup of \<open>placeholder_<island id>\<close> in the loop that loads a chunk.\<close>

definition removeIslandPlaceholder :: "string \<Rightarrow> State \<Rightarrow> State" where
  "removeIslandPlaceholder islandId s =
     (let placeholderId = ''placeholder_'' @ islandId
      in case map_of (lowPolyIslands s) placeholderId of
           Some placeholder \<Rightarrow>
             (scene_remove placeholder s)
               \<lparr>lowPolyIslands := AList.delete placeholderId (lowPolyIslands s)\<rparr>
         | None \<Rightarrow> s)"

definition loadHighDetail :: "State \<Rightarrow> string \<Rightarrow> State" where
  "loadHighDetail s key =
     (if key \<notin> set (loadedChunks s) \<and> key \<in> set (generatedChunks s)
      then (let s1 = forEachIsland (\<lambda>island. chunk island = key)
                       (\<lambda>island s. let (island1, s') = addIslandMesh island s
                                    in (island1, removeIslandPlaceholder (id' island1) s'))
                       s
            in s1\<lparr>loadedChunks := setAdd (loadedChunks s1) key\<rparr>)
      else s)"

definition unloadFar :: "string list \<Rightarrow> State \<Rightarrow> string \<Rightarrow> State" where
  "unloadFar low s key = (if key \<notin> set low then unloadChunk key s else s)"

definition countUpdate :: "State \<Rightarrow> State" where
  "countUpdate s =
     (let s1 = s\<lparr>chunkUpdateCounter := Suc (chunkUpdateCounter s)\<rparr>
      in if chunkUpdateCounter s1 > 50
         then s1\<lparr>islandGenerator := clearUnusedCaches (islandGenerator s1),
                 chunkUpdateCounter := 0\<rparr>
         else s1)"

text \<open>
  \<open>updateChunks\<close> up to the call of \<open>processNextPendingChunk\<close>: the two tracking loops,
  the loading loop and the unloading loop. The returned set of visible island ids is not
  kept (its one use, \<open>clearUnusedCaches\<close>, ignores it).
\<close>

definition streamChunks :: "Pos \<Rightarrow> State \<Rightarrow> State" where
  "streamChunks playerPosition s =
     (let currentChunkX = \<lfloor>pos_x playerPosition / of_int CHUNK_SIZE\<rfloor>;
          currentChunkZ = \<lfloor>pos_z playerPosition / of_int CHUNK_SIZE\<rfloor>;
          s1 = foldl (trackHighDetail currentChunkX currentChunkZ) s (offsets highDetailDistance);
          s2 = foldl (trackLowDetail currentChunkX currentChunkZ) s1 (offsets lowDetailDistance);
          s3 = foldl loadHighDetail s2 (highDetailChunks currentChunkX currentChunkZ)
      in foldl (unloadFar (lowDetailChunks currentChunkX currentChunkZ)) s3 (loadedChunks s3))"

definition updateChunks :: "Pos \<Rightarrow> State \<Rightarrow> Fault + State" where
  "updateChunks playerPosition s =
     (case processNextPendingChunk playerPosition (streamChunks playerPosition s) of
        Inl e \<Rightarrow> Inl e
      | Inr s' \<Rightarrow> Inr (countUpdate s'))"

subsection \<open>Runs\<close>

text \<open>
  What happens to the world: a tick of the animation loop at an observer position, or the
  browser running one of the pending timer callbacks. A run stops at the first fault.
\<close>

datatype Event = Tick Pos | Timeout nat

definition fireTimeout :: "nat \<Rightarrow> State \<Rightarrow> State" where
  "fireTimeout n s =
     (if n < length (timeouts s)
      then runTimeout (timeouts s ! n) (s\<lparr>timeouts := take n (timeouts s) @ drop (Suc n) (timeouts s)\<rparr>)
      else s)"

definition step :: "Event \<Rightarrow> State \<Rightarrow> Fault + State" where
  "step e s = (case e of Tick p \<Rightarrow> updateChunks p s | Timeout n \<Rightarrow> Inr (fireTimeout n s))"

fun run :: "Event list \<Rightarrow> State \<Rightarrow> Fault + State" where
  "run [] s = Inr s"
| "run (e # es) s = (case step e s of Inl f \<Rightarrow> Inl f | Inr s' \<Rightarrow> run es s')"

text \<open>
  The world when the game starts: a \<open>DataManager\<close> that has loaded what \<open>localStorage\<close>
  holds (once in its constructor, once more in \<open>Game.init\<close>), nothing loaded, queued or
  shown, and the \<open>islandLabels\<close> element of the page.
\<close>

definition startGame ::
  "StoredIsland list item \<Rightarrow> string list item \<Rightarrow> (nat \<Rightarrow> rat) \<Rightarrow> State" where
  "startGame items chunks rnd =
     loadData (loadData
       \<lparr>islandData = [], generatedChunks = [], storedData = items, storedChunks = chunks,
        loadedChunks = [], pendingChunks = [], isGeneratingChunk = False,
        lowPolyIslands = [], chunkUpdateCounter = 0, scene = [], islandLabels = Some [],
        islandGenerator = newGenerator, timeouts = [], objectCount = 0,
        randomStream = rnd, randomIndex = 0\<rparr>)"

section \<open>Concrete worlds\<close>

text \<open>A game started on an empty \<open>localStorage\<close>, with \<open>Math.random()\<close> always 0.\<close>

definition emptyWorld :: State where
  "emptyWorld = startGame NoItem NoItem (\<lambda>_. 0)"

text \<open>
  An advertisement island as \<open>generateChunk\<close> writes it for chunk \<open>-1_0\<close>, after
  \<open>addIslandMesh\<close> has put its group into the scene and its billboard into
  \<open>outdoor.billboard\<close>; and a store that holds it.
\<close>

definition shownAdIsland :: IslandData where
  "shownAdIsland =
     \<lparr>id' = ''ad_island_-1_0_0_rank4'',
      pos = \<lparr>pos_x = - (189 / 5), pos_y = 0, pos_z = 70\<rparr>,
      biome = ''Volcano'', size' = 1771 / 200, name = None, chunk = ''-1_0'',
      outdoor = Some \<lparr>image' = ''https://picsum.photos/seed/5/300/200'',
                       url = ''https://example.com/ad/5_tier_Standard'', active = True,
                       adRank = 4, lastInteractionTime = None,
                       billboard = Some (BillboardMesh 36 ''ad_island_-1_0_0_rank4'')\<rparr>,
      mesh = Some (IslandGroup 35 ''ad_island_-1_0_0_rank4''), label = None\<rparr>"

definition shownAdStore :: DataManager where
  "shownAdStore =
     \<lparr>islandData = [(''ad_island_-1_0_0_rank4'', shownAdIsland)],
      generatedChunks = [''-1_0''], storedData = NoItem, storedChunks = NoItem\<rparr>"

section \<open>Predicates used in the proofs\<close>

text \<open>The seeded random functions that \<open>generateChunk\<close> chooses from.\<close>

definition seeded :: "(rat \<Rightarrow> rat \<Rightarrow> string \<Rightarrow> rat) \<Rightarrow> bool" where
  "seeded sf = (\<exists>key. sf = getDetailedSeedRandom key \<or> sf = getSimpleSeedRandom key)"

text \<open>A key of the form that \<open>updateChunks\<close> builds, and a queue of such keys.\<close>

definition wfKey :: "string \<Rightarrow> bool" where
  "wfKey k = (\<exists>x z. k = chunkKeyOf x z)"

definition pendingWf :: "State \<Rightarrow> bool" where
  "pendingWf s = list_all wfKey (pendingChunks s)"

text \<open>At most one timer callback is pending, and the busy flag says whether one is.\<close>

definition oneInFlight :: "State \<Rightarrow> bool" where
  "oneInFlight s = (length (timeouts s) \<le> 1 \<and> (isGeneratingChunk s = (timeouts s \<noteq> [])))"

text \<open>Every loaded chunk has been generated.\<close>

definition loadedAreGenerated :: "State \<Rightarrow> bool" where
  "loadedAreGenerated s = (set (loadedChunks s) \<subseteq> set (generatedChunks s))"

text \<open>No generated chunk has a placeholder left in the map.\<close>

definition generatedHaveNoPlaceholder :: "State \<Rightarrow> bool" where
  "generatedHaveNoPlaceholder s =
     (\<forall>k \<in> set (generatedChunks s). \<forall>i. map_of (lowPolyIslands s) (placeholderIdOf k i) = None)"

text \<open>Every placeholder in the scene is the one that the map holds under its id.\<close>

definition placeholdersTracked :: "State \<Rightarrow> bool" where
  "placeholdersTracked s =
     (\<forall>obj \<in> set (scene s). \<forall>n pid.
        obj = PlaceholderMesh n pid \<longrightarrow> map_of (lowPolyIslands s) pid = Some obj)"

section \<open>Facts about the hashes\<close>

lemma hashStep_poly: "hashStep h c = h * 31 + of_nat c"
  by (simp add: hashStep_def push_bit_eq_mult)

lemma foldl_hashStep_poly:
  "foldl hashStep h str = foldl (\<lambda>h c. h * 31 + of_nat c) h str"
  by (induction str arbitrary: h) (simp_all add: hashStep_poly)

lemma hashCode_polyHash: "hashCode str = polyHash str"
  by (simp add: hashCode_def polyHash_def foldl_hashStep_poly)

lemma simpleHash_prefix: "simpleHash str = polyHash (take 10 str)"
  by (cases str) (simp_all add: simpleHash_def polyHash_def foldl_hashStep_poly min_def)

lemma emptyWorld_fields:
  "lowPolyIslands emptyWorld = []" "scene emptyWorld = []" "objectCount emptyWorld = 0"
  "randomIndex emptyWorld = 0" "randomStream emptyWorld = (\<lambda>_. 0)"
  "loadedChunks emptyWorld = []" "pendingChunks emptyWorld = []"
  "isGeneratingChunk emptyWorld = False" "timeouts emptyWorld = []"
  "islandData emptyWorld = []" "generatedChunks emptyWorld = []"
  by (simp_all add: emptyWorld_def startGame_def loadData_def)

lemma concrete_keys:
  "chunkKeyOf 1 10 = ''1_10''" "chunkKeyOf 1 1 = ''1_1''"
  "placeholderIdOf ''1_10'' 0 = ''placeholder_1_10_0''"
  by code_simp+

section \<open>C9: the string hashes\<close>

text \<open>
  C9, as stated, fails for \<open>ChunkManager.simpleHash\<close>. The combined seeds that
  \<open>getDetailedSeedRandom\<close> builds for \<open>posX\<close> of islands 0 and 1 of chunk \<open>-1_-1\<close>
  differ in their eleventh code unit and hash to the same value, which is not the rolling
  hash of the whole seed.
\<close>

theorem simpleHash_ignores_tail:
  "simpleHash (units ''-1_-1posX_00100'') = simpleHash (units ''-1_-1posX_10100'') \<and>
   simpleHash (units ''-1_-1posX_00100'') \<noteq> polyHash (units ''-1_-1posX_00100'')"
  by code_simp

text \<open>
  C9, amended: \<open>IslandGenerator.hashCode\<close> is the polynomial rolling hash
  (\<open>hash * 31 + charCode\<close>, wrapped to 32 bits, magnitude taken) of its whole input;
  \<open>ChunkManager.simpleHash\<close> is the same rolling hash of the first ten code units of
  its input only.
\<close>

theorem hashes_are_rolling_hashes:
  "hashCode str = polyHash str \<and> simpleHash str = polyHash (take 10 str)"
  by (simp add: hashCode_polyHash simpleHash_prefix)

section \<open>C4: what \<open>saveData\<close> writes\<close>

text \<open>
  C4 at the store that holds a shown advertisement island: \<open>saveData\<close> strips \<open>mesh\<close>
  and \<open>label\<close>, but the record it writes still carries the billboard handle inside
  \<open>outdoor\<close>, and a fresh \<open>DataManager\<close> loads the record with that handle.
\<close>

theorem saveData_keeps_billboard:
  "storedData (saveData shownAdStore) = Json [rest shownAdIsland] \<and>
   storedHandles (rest shownAdIsland) = [BillboardMesh 36 ''ad_island_-1_0_0_rank4''] \<and>
   map (\<lambda>(k, r). (mesh r, label r, map_option billboard (outdoor r)))
     (islandData (newDataManager (saveData shownAdStore)))
     = [(None, None, Some (Some (BillboardMesh 36 ''ad_island_-1_0_0_rank4'')))]"
  by (simp add: saveData_def shownAdStore_def Object_values_def storedHandles_def rest_def
      shownAdIsland_def newDataManager_def loadData_def parsed_def setFromList_def setAdd_def)

section \<open>C10: placeholders of another chunk\<close>

text \<open>
  C10 at the chunk keys \<open>1_1\<close> and \<open>1_10\<close>: the placeholder created for chunk
  \<open>1_10\<close> is in the map and in the scene, and \<open>removePlaceholdersForChunk\<close> for
  chunk \<open>1_1\<close> removes it from both, because \<open>placeholder_1_10_0\<close> starts with
  \<open>placeholder_1_1\<close>.
\<close>

theorem removePlaceholdersForChunk_prefix_clash:
  "chunkKeyOf 1 1 \<noteq> chunkKeyOf 1 10 \<and>
   lowPolyIslands (createPlaceholdersForChunk 1 10 (chunkKeyOf 1 10) emptyWorld)
     = [(placeholderIdOf (chunkKeyOf 1 10) 0, PlaceholderMesh 0 (placeholderIdOf (chunkKeyOf 1 10) 0))] \<and>
   scene (createPlaceholdersForChunk 1 10 (chunkKeyOf 1 10) emptyWorld)
     = [PlaceholderMesh 0 (placeholderIdOf (chunkKeyOf 1 10) 0)] \<and>
   lowPolyIslands (removePlaceholdersForChunk (chunkKeyOf 1 1)
      (createPlaceholdersForChunk 1 10 (chunkKeyOf 1 10) emptyWorld)) = [] \<and>
   scene (removePlaceholdersForChunk (chunkKeyOf 1 1)
      (createPlaceholdersForChunk 1 10 (chunkKeyOf 1 10) emptyWorld)) = []"
  by (simp add: concrete_keys createPlaceholdersForChunk_def createPlaceholder_def
      Math_random_def scene_add_def emptyWorld_fields removePlaceholdersForChunk_def
      scene_remove_def Let_def)

section \<open>Facts about printed numbers and keys\<close>

lemma digitChar_isDigit: "isDigit (digitChar d)"
  unfolding isDigit_def digitChar_def by (rule nth_mem) simp

lemma show_nat_digits: "\<forall>c \<in> set (show_nat n). isDigit c"
proof (induction n rule: show_nat.induct)
  case (1 n)
  show ?case
  proof (cases "n < 10")
    case True
    then show ?thesis by (subst show_nat.simps) (simp add: digitChar_isDigit)
  next
    case False
    with 1 show ?thesis by (subst show_nat.simps) (simp add: digitChar_isDigit)
  qed
qed

lemma show_nat_not_Nil: "show_nat n \<noteq> []"
  by (subst show_nat.simps) simp

lemma underscore_not_digit: "\<not> isDigit CHR ''_''" "\<not> isDigit CHR ''-''" "\<not> isDigit CHR ''+''"
  by (simp_all add: isDigit_def)

lemma show_nat_no_underscore: "CHR ''_'' \<notin> set (show_nat n)"
  using show_nat_digits [of n] underscore_not_digit by blast

lemma show_int_no_underscore: "CHR ''_'' \<notin> set (show_int i)"
  by (simp add: show_int_def show_nat_no_underscore)

lemma show_int_not_Nil: "show_int i \<noteq> []"
  by (simp add: show_int_def show_nat_not_Nil)

lemma takeWhile_until_sep:
  "c \<notin> set zs \<Longrightarrow> takeWhile (\<lambda>x. x \<noteq> c) (zs @ c # ws) = zs"
  by (induction zs) auto

lemma split_last_sep:
  assumes "xs @ c # ys = xs' @ c # ys'" "c \<notin> set ys" "c \<notin> set ys'"
  shows "xs = xs' \<and> ys = ys'"
proof -
  have tw: "takeWhile (\<lambda>x. x \<noteq> c) (rev (as @ c # bs)) = rev bs" if "c \<notin> set bs" for as bs
    using that takeWhile_until_sep [of c "rev bs" "rev as"] by simp
  have "rev ys = rev ys'"
    using tw [OF assms(2), of xs] tw [OF assms(3), of xs'] assms(1) by simp
  then have "ys = ys'" by simp
  with assms(1) show ?thesis by simp
qed

lemma placeholderIdOf_inj_key:
  "placeholderIdOf k i = placeholderIdOf k' i' \<Longrightarrow> k = k'"
  unfolding placeholderIdOf_def
  using split_last_sep [of k "CHR ''_''" "show_nat i" k' "show_nat i'"]
  by (simp add: show_nat_no_underscore)

lemma placeholderIdOf_prefix: "prefix (''placeholder_'' @ k) (placeholderIdOf k i)"
  by (simp add: placeholderIdOf_def)

lemma split_us_plain: "CHR ''_'' \<notin> set b \<Longrightarrow> split_us b = [b]"
  by (induction b) auto

lemma split_us_sep: "CHR ''_'' \<notin> set a \<Longrightarrow> split_us (a @ CHR ''_'' # b) = a # split_us b"
  by (induction a) auto

lemma split_us_chunkKeyOf: "split_us (chunkKeyOf x z) = [show_int x, show_int z]"
  by (simp add: chunkKeyOf_def split_us_sep split_us_plain show_int_no_underscore)

lemma chunkKeyOf_not_Nil: "chunkKeyOf x z \<noteq> []"
  by (simp add: chunkKeyOf_def show_int_not_Nil)

lemma digitVal_digitChar: "d < 10 \<Longrightarrow> digitVal (digitChar d) = d"
proof -
  assume "d < 10"
  then have "d \<in> {0, 1, 2, 3, 4, 5, 6, 7, 8, 9}" by auto
  then show ?thesis by (auto simp: digitVal_def digitChar_def)
qed

lemma digits_value_show_nat:
  "foldl (\<lambda>acc c. acc * 10 + digitVal c) 0 (show_nat n) = n"
proof (induction n rule: show_nat.induct)
  case (1 n)
  show ?case
  proof (cases "n < 10")
    case True
    then show ?thesis by (subst show_nat.simps) (simp add: digitVal_digitChar)
  next
    case False
    with 1 show ?thesis by (subst show_nat.simps) (simp add: digitVal_digitChar)
  qed
qed

lemma parseDigits_show_nat: "parseDigits (show_nat n) = Some n"
proof -
  have tw: "takeWhile isDigit (show_nat n) = show_nat n"
    using show_nat_digits by simp
  show ?thesis
    unfolding parseDigits_def tw Let_def
    by (simp add: show_nat_not_Nil digits_value_show_nat)
qed

lemma parseInt_show_int: "parseInt (show_int i) = Some i"
proof (cases "i < 0")
  case True
  then show ?thesis by (simp add: parseInt_def show_int_def parseDigits_show_nat)
next
  case False
  obtain c cs where cs: "show_nat (nat i) = c # cs"
    using show_nat_not_Nil by (cases "show_nat (nat i)") auto
  then have "isDigit c" using show_nat_digits [of "nat i"] by simp
  then have "c \<noteq> CHR ''-''" "c \<noteq> CHR ''+''" using underscore_not_digit by auto
  moreover have "parseDigits (c # cs) = Some (nat i)" using parseDigits_show_nat [of "nat i"] cs by simp
  ultimately show ?thesis using False cs by (simp add: parseInt_def show_int_def)
qed

section \<open>Loops and frames\<close>

lemma foldl_frame:
  assumes "\<And>s x. g (f s x) = g s"
  shows "g (foldl f s xs) = g s"
  by (induction xs arbitrary: s) (simp_all add: assms)

lemma foldl_inv:
  assumes "\<And>s x. P s \<Longrightarrow> P (f s x)" "P s"
  shows "P (foldl f s xs)"
  using assms(2) by (induction xs arbitrary: s) (simp_all add: assms(1))

lemma eachIsland_frame:
  assumes "\<And>r s. g (snd (f r s)) = g s"
  shows "g (snd (eachIsland p f es s)) = g s"
proof (induction es arbitrary: s)
  case Nil
  show ?case by simp
next
  case (Cons e es)
  obtain k r where e: "e = (k, r)" by (cases e)
  show ?case
    using Cons [of "snd (f r s)"] Cons [of s] assms [of r s]
    by (simp add: e split_def Let_def)
qed

lemma eachIsland_inv:
  assumes "\<And>r s. P s \<Longrightarrow> P (snd (f r s))" "P s"
  shows "P (snd (eachIsland p f es s))"
  using assms(2)
proof (induction es arbitrary: s)
  case Nil
  then show ?case by simp
next
  case (Cons e es)
  obtain k r where e: "e = (k, r)" by (cases e)
  show ?case
    using Cons.IH [of "snd (f r s)"] Cons.IH [of s] assms(1) [of s r] Cons.prems
    by (simp add: e split_def Let_def)
qed

lemma forEachIsland_frame:
  assumes "\<And>r s. g (snd (f r s)) = g s" "\<And>s es. g (s\<lparr>islandData := es\<rparr>) = g s"
  shows "g (forEachIsland p f s) = g s"
  using eachIsland_frame [of g f, OF assms(1)]
  by (simp add: forEachIsland_def split_def Let_def assms(2))

lemma forEachIsland_inv:
  assumes "\<And>r s. P s \<Longrightarrow> P (snd (f r s))" "\<And>s es. P (s\<lparr>islandData := es\<rparr>) = P s" "P s"
  shows "P (forEachIsland p f s)"
  using eachIsland_inv [of P f, OF assms(1) assms(3)]
  by (simp add: forEachIsland_def split_def Let_def assms(2))

subsection \<open>What the island operations leave alone\<close>

lemma Math_random_frame:
  "scene (snd (Math_random s)) = scene s"
  "lowPolyIslands (snd (Math_random s)) = lowPolyIslands s"
  "generatedChunks (snd (Math_random s)) = generatedChunks s"
  "loadedChunks (snd (Math_random s)) = loadedChunks s"
  "pendingChunks (snd (Math_random s)) = pendingChunks s"
  "timeouts (snd (Math_random s)) = timeouts s"
  "isGeneratingChunk (snd (Math_random s)) = isGeneratingChunk s"
  "islandData (snd (Math_random s)) = islandData s"
  "objectCount (snd (Math_random s)) = objectCount s"
  "islandGenerator (snd (Math_random s)) = islandGenerator s"
  "islandLabels (snd (Math_random s)) = islandLabels s"
  by (simp_all add: Math_random_def)

lemma addOutdoorToIsland_frame:
  "scene (snd (addOutdoorToIsland r s)) = scene s"
  "lowPolyIslands (snd (addOutdoorToIsland r s)) = lowPolyIslands s"
  "generatedChunks (snd (addOutdoorToIsland r s)) = generatedChunks s"
  "loadedChunks (snd (addOutdoorToIsland r s)) = loadedChunks s"
  "pendingChunks (snd (addOutdoorToIsland r s)) = pendingChunks s"
  "timeouts (snd (addOutdoorToIsland r s)) = timeouts s"
  "isGeneratingChunk (snd (addOutdoorToIsland r s)) = isGeneratingChunk s"
  "islandData (snd (addOutdoorToIsland r s)) = islandData s"
  "islandLabels (snd (addOutdoorToIsland r s)) = islandLabels s"
  "randomIndex (snd (addOutdoorToIsland r s)) = randomIndex s"
  by (simp_all add: addOutdoorToIsland_def split_def Let_def split: option.splits)

lemma addOutdoorToIsland_record:
  "chunk (fst (addOutdoorToIsland r s)) = chunk r"
  "id' (fst (addOutdoorToIsland r s)) = id' r"
  "mesh (fst (addOutdoorToIsland r s)) = mesh r"
  "label (fst (addOutdoorToIsland r s)) = label r"
  "name (fst (addOutdoorToIsland r s)) = name r"
  by (simp_all add: addOutdoorToIsland_def split_def Let_def split: option.splits)

lemma IslandGenerator_addIslandMesh_frame:
  "lowPolyIslands (snd (IslandGenerator_addIslandMesh r s)) = lowPolyIslands s"
  "generatedChunks (snd (IslandGenerator_addIslandMesh r s)) = generatedChunks s"
  "loadedChunks (snd (IslandGenerator_addIslandMesh r s)) = loadedChunks s"
  "pendingChunks (snd (IslandGenerator_addIslandMesh r s)) = pendingChunks s"
  "timeouts (snd (IslandGenerator_addIslandMesh r s)) = timeouts s"
  "isGeneratingChunk (snd (IslandGenerator_addIslandMesh r s)) = isGeneratingChunk s"
  "islandData (snd (IslandGenerator_addIslandMesh r s)) = islandData s"
  "islandLabels (snd (IslandGenerator_addIslandMesh r s)) = islandLabels s"
  by (simp_all add: IslandGenerator_addIslandMesh_def split_def Let_def scene_add_def
      addOutdoorToIsland_frame Math_random_def split: option.splits)

lemma IslandGenerator_addIslandMesh_record:
  "chunk (fst (IslandGenerator_addIslandMesh r s)) = chunk r"
  "id' (fst (IslandGenerator_addIslandMesh r s)) = id' r"
  "label (fst (IslandGenerator_addIslandMesh r s)) = label r"
  "name (fst (IslandGenerator_addIslandMesh r s)) = name r"
  by (simp_all add: IslandGenerator_addIslandMesh_def split_def Let_def
      addOutdoorToIsland_record split: option.splits)

lemma IslandGenerator_addIslandMesh_scene:
  "set (scene (snd (IslandGenerator_addIslandMesh r s))) \<subseteq>
     set (scene s) \<union> {IslandGroup (objectCount s) (id' r)}"
  by (auto simp: IslandGenerator_addIslandMesh_def split_def Let_def scene_add_def
      addOutdoorToIsland_frame Math_random_def split: option.splits if_splits)

lemma createIslandLabel_frame:
  "scene (snd (createIslandLabel r s)) = scene s"
  "lowPolyIslands (snd (createIslandLabel r s)) = lowPolyIslands s"
  "generatedChunks (snd (createIslandLabel r s)) = generatedChunks s"
  "loadedChunks (snd (createIslandLabel r s)) = loadedChunks s"
  "pendingChunks (snd (createIslandLabel r s)) = pendingChunks s"
  "timeouts (snd (createIslandLabel r s)) = timeouts s"
  "isGeneratingChunk (snd (createIslandLabel r s)) = isGeneratingChunk s"
  "islandData (snd (createIslandLabel r s)) = islandData s"
  by (simp_all add: createIslandLabel_def split: option.splits)

lemma createIslandLabel_record:
  "chunk (fst (createIslandLabel r s)) = chunk r"
  "id' (fst (createIslandLabel r s)) = id' r"
  "mesh (fst (createIslandLabel r s)) = mesh r"
  by (simp_all add: createIslandLabel_def split: option.splits)

lemma addIslandMesh_frame:
  "lowPolyIslands (snd (addIslandMesh r s)) = lowPolyIslands s"
  "generatedChunks (snd (addIslandMesh r s)) = generatedChunks s"
  "loadedChunks (snd (addIslandMesh r s)) = loadedChunks s"
  "pendingChunks (snd (addIslandMesh r s)) = pendingChunks s"
  "timeouts (snd (addIslandMesh r s)) = timeouts s"
  "isGeneratingChunk (snd (addIslandMesh r s)) = isGeneratingChunk s"
  "islandData (snd (addIslandMesh r s)) = islandData s"
  by (simp_all add: addIslandMesh_def split_def Let_def createIslandLabel_frame
      IslandGenerator_addIslandMesh_frame)

lemma addIslandMesh_record:
  "chunk (fst (addIslandMesh r s)) = chunk r"
  "id' (fst (addIslandMesh r s)) = id' r"
  by (simp_all add: addIslandMesh_def split_def Let_def createIslandLabel_record
      IslandGenerator_addIslandMesh_record)

lemma addIslandMesh_scene:
  "set (scene (snd (addIslandMesh r s))) \<subseteq> set (scene s) \<union> {IslandGroup (objectCount s) (id' r)}"
  using IslandGenerator_addIslandMesh_scene [of r s]
  by (simp add: addIslandMesh_def split_def Let_def createIslandLabel_frame)

lemma removeIslandMesh_frame:
  "lowPolyIslands (snd (removeIslandMesh r s)) = lowPolyIslands s"
  "generatedChunks (snd (removeIslandMesh r s)) = generatedChunks s"
  "loadedChunks (snd (removeIslandMesh r s)) = loadedChunks s"
  "pendingChunks (snd (removeIslandMesh r s)) = pendingChunks s"
  "timeouts (snd (removeIslandMesh r s)) = timeouts s"
  "isGeneratingChunk (snd (removeIslandMesh r s)) = isGeneratingChunk s"
  "islandData (snd (removeIslandMesh r s)) = islandData s"
  by (simp_all add: removeIslandMesh_def IslandGenerator_removeIslandMesh_def split_def Let_def
      scene_remove_def split: option.splits)

lemma removeIslandMesh_record:
  "chunk (fst (removeIslandMesh r s)) = chunk r"
  "id' (fst (removeIslandMesh r s)) = id' r"
  "mesh (fst (removeIslandMesh r s)) = None"
  by (simp_all add: removeIslandMesh_def IslandGenerator_removeIslandMesh_def split_def Let_def
      split: option.splits)

lemma removeIslandMesh_scene:
  "scene (snd (removeIslandMesh r s)) =
     (case mesh r of None \<Rightarrow> scene s | Some m \<Rightarrow> filter (\<lambda>c. c \<noteq> m) (scene s))"
  by (simp add: removeIslandMesh_def IslandGenerator_removeIslandMesh_def split_def Let_def
      scene_remove_def split: option.splits)

lemma loadChunk_frame:
  "lowPolyIslands (loadChunk k s) = lowPolyIslands s"
  "generatedChunks (loadChunk k s) = generatedChunks s"
  "pendingChunks (loadChunk k s) = pendingChunks s"
  "timeouts (loadChunk k s) = timeouts s"
  "isGeneratingChunk (loadChunk k s) = isGeneratingChunk s"
  by (simp_all add: loadChunk_def forEachIsland_frame addIslandMesh_frame)

lemma loadChunk_loaded:
  "set (loadedChunks (loadChunk k s)) = insert k (set (loadedChunks s))"
  by (auto simp: loadChunk_def forEachIsland_frame addIslandMesh_frame setAdd_def)

lemma unloadChunk_frame:
  "lowPolyIslands (unloadChunk k s) = lowPolyIslands s"
  "generatedChunks (unloadChunk k s) = generatedChunks s"
  "pendingChunks (unloadChunk k s) = pendingChunks s"
  "timeouts (unloadChunk k s) = timeouts s"
  "isGeneratingChunk (unloadChunk k s) = isGeneratingChunk s"
  by (simp_all add: unloadChunk_def forEachIsland_frame removeIslandMesh_frame)

lemma unloadChunk_loaded:
  "set (loadedChunks (unloadChunk k s)) = set (loadedChunks s) - {k}"
  by (auto simp: unloadChunk_def forEachIsland_frame removeIslandMesh_frame)

lemma createPlaceholder_frame:
  "generatedChunks (createPlaceholder k s i) = generatedChunks s"
  "loadedChunks (createPlaceholder k s i) = loadedChunks s"
  "pendingChunks (createPlaceholder k s i) = pendingChunks s"
  "timeouts (createPlaceholder k s i) = timeouts s"
  "isGeneratingChunk (createPlaceholder k s i) = isGeneratingChunk s"
  "islandData (createPlaceholder k s i) = islandData s"
  by (simp_all add: createPlaceholder_def Let_def split_def scene_add_def Math_random_def)

lemma createPlaceholdersForChunk_frame:
  "generatedChunks (createPlaceholdersForChunk x z k s) = generatedChunks s"
  "loadedChunks (createPlaceholdersForChunk x z k s) = loadedChunks s"
  "pendingChunks (createPlaceholdersForChunk x z k s) = pendingChunks s"
  "timeouts (createPlaceholdersForChunk x z k s) = timeouts s"
  "isGeneratingChunk (createPlaceholdersForChunk x z k s) = isGeneratingChunk s"
  "islandData (createPlaceholdersForChunk x z k s) = islandData s"
  by (simp_all add: createPlaceholdersForChunk_def Let_def split_def foldl_frame
      createPlaceholder_frame Math_random_frame)

lemma removePlaceholders_step_frame:
  "generatedChunks ((\<lambda>s (pid, placeholder). if P pid
       then (scene_remove placeholder s)\<lparr>lowPolyIslands := AList.delete pid (lowPolyIslands s)\<rparr>
       else s) s e) = generatedChunks s"
  by (simp add: split_def scene_remove_def)

lemma removePlaceholdersForChunk_frame:
  "generatedChunks (removePlaceholdersForChunk k s) = generatedChunks s"
  "loadedChunks (removePlaceholdersForChunk k s) = loadedChunks s"
  "pendingChunks (removePlaceholdersForChunk k s) = pendingChunks s"
  "timeouts (removePlaceholdersForChunk k s) = timeouts s"
  "isGeneratingChunk (removePlaceholdersForChunk k s) = isGeneratingChunk s"
  "islandData (removePlaceholdersForChunk k s) = islandData s"
  "randomIndex (removePlaceholdersForChunk k s) = randomIndex s"
  "randomStream (removePlaceholdersForChunk k s) = randomStream s"
  unfolding removePlaceholdersForChunk_def
  by (rule foldl_frame, simp add: split_def scene_remove_def)+

lemma saveData_frame:
  "generatedChunks (saveData s) = generatedChunks s"
  "islandData (saveData s) = islandData s"
  by (simp_all add: saveData_def)

lemma saveData_state_frame:
  fixes s :: State
  shows "loadedChunks (saveData s) = loadedChunks s"
  "pendingChunks (saveData s) = pendingChunks s"
  "timeouts (saveData s) = timeouts s"
  "isGeneratingChunk (saveData s) = isGeneratingChunk s"
  "lowPolyIslands (saveData s) = lowPolyIslands s"
  "scene (saveData s) = scene s"
  by (simp_all add: saveData_def)

lemma generateChunk_frame:
  "loadedChunks (fst (generateChunk x z h s)) = loadedChunks s"
  "pendingChunks (fst (generateChunk x z h s)) = pendingChunks s"
  "timeouts (fst (generateChunk x z h s)) = timeouts s"
  "isGeneratingChunk (fst (generateChunk x z h s)) = isGeneratingChunk s"
  by (simp_all add: generateChunk_def Let_def split_def saveData_state_frame Math_random_frame
      removePlaceholdersForChunk_frame)

lemma generateChunk_generated:
  "snd (generateChunk x z h s) \<Longrightarrow> chunkKeyOf x z \<in> set (generatedChunks (fst (generateChunk x z h s)))"
  by (auto simp: generateChunk_def Let_def split_def saveData_frame Math_random_frame
      removePlaceholdersForChunk_frame setAdd_def split: if_splits)

lemma generateChunk_generated_mono:
  "set (generatedChunks s) \<subseteq> set (generatedChunks (fst (generateChunk x z h s)))"
  by (auto simp: generateChunk_def Let_def split_def saveData_frame Math_random_frame
      removePlaceholdersForChunk_frame setAdd_def split: if_splits)

lemma generateChunk_generated_le:
  "set (generatedChunks (fst (generateChunk x z h s))) \<subseteq> insert (chunkKeyOf x z) (set (generatedChunks s))"
  by (auto simp: generateChunk_def Let_def split_def saveData_frame Math_random_frame
      removePlaceholdersForChunk_frame setAdd_def split: if_splits)

section \<open>generateChunk always returns\<close>

lemma seeded_range:
  assumes "seeded sf" "0 < mx"
  shows "0 \<le> sf 0 mx salt \<and> sf 0 mx salt < mx"
proof -
  have unit: "0 \<le> (of_int (h mod m) / of_int m :: rat) \<and> (of_int (h mod m) / of_int m :: rat) < 1"
    if "0 < m" for h m :: int
    using that by (simp add: divide_less_eq)
  have scale: "0 \<le> \<bar>v\<bar> * mx \<and> \<bar>v\<bar> * mx < mx" if "0 \<le> v \<and> v < 1" for v :: rat
    using that assms(2) by (simp add: mult_less_cancel_right2)
  from assms(1) obtain key where "sf = getDetailedSeedRandom key \<or> sf = getSimpleSeedRandom key"
    unfolding seeded_def by blast
  then show ?thesis
  proof
    assume sf: "sf = getDetailedSeedRandom key"
    define v :: rat where
      "v = of_int (simpleHash (units (key @ salt @ numToString 0 @ numToString mx)) mod 1000) / of_int 1000"
    have v: "0 \<le> v \<and> v < 1" unfolding v_def by (rule unit) simp
    have "sf 0 mx salt = \<bar>v\<bar> * mx"
      unfolding v_def sf by (simp add: getDetailedSeedRandom_def Let_def)
    then show ?thesis using scale [OF v] by simp
  next
    assume sf: "sf = getSimpleSeedRandom key"
    define v :: rat where "v = of_int (simpleHash (units (key @ salt)) mod 100) / of_int 100"
    have v: "0 \<le> v \<and> v < 1" unfolding v_def by (rule unit) simp
    then have "sf 0 mx salt = \<bar>v\<bar> * mx"
      unfolding v_def sf by (simp add: getSimpleSeedRandom_def Let_def abs_of_nonneg)
    then show ?thesis using scale [OF v] by simp
  qed
qed

lemma arrayAt_None_iff: "arrayAt xs i = None \<longleftrightarrow> \<not> (0 \<le> i \<and> i < int (length xs))"
  by (auto simp: arrayAt_def)

lemma generateIsland_returns:
  assumes "seeded sf"
  shows "generateIsland x z key sf st l i \<noteq> None"
proof -
  have "0 \<le> \<lfloor>sf 0 4 salt\<rfloor> \<and> \<lfloor>sf 0 4 salt\<rfloor> < 4" for salt
    using seeded_range [OF assms, of 4 salt] by (simp add: floor_less_iff)
  then have b: "arrayAt BIOMES \<lfloor>sf 0 (of_nat (length BIOMES)) salt\<rfloor> \<noteq> None" for salt
    by (simp add: arrayAt_None_iff BIOMES_def)
  have "0 \<le> \<lfloor>sf 0 5 salt\<rfloor> \<and> \<lfloor>sf 0 5 salt\<rfloor> < 5" for salt
    using seeded_range [OF assms, of 5 salt] by (simp add: floor_less_iff)
  then have t1: "arrayAt AD_RANK_TIERS \<lfloor>sf 0 (of_nat (length AD_RANK_TIERS)) salt\<rfloor> \<noteq> None" for salt
    by (simp add: arrayAt_None_iff AD_RANK_TIERS_def)
  have "0 \<le> \<lfloor>sf 0 5 salt * (7 / 10) + 1\<rfloor>" for salt
    using seeded_range [OF assms, of 5 salt] by (simp add: zero_le_floor)
  then have t2: "arrayAt AD_RANK_TIERS
      (min (int (length AD_RANK_TIERS) - 1)
         \<lfloor>sf 0 (of_nat (length AD_RANK_TIERS)) salt * (7 / 10) + 1\<rfloor>) \<noteq> None" for salt
    by (simp add: arrayAt_None_iff AD_RANK_TIERS_def min_def)
  obtain bb where bb:
    "arrayAt BIOMES \<lfloor>sf 0 (of_nat (length BIOMES)) (''biome_'' @ show_nat i)\<rfloor> = Some bb"
    using b by blast
  obtain ta where ta:
    "arrayAt AD_RANK_TIERS \<lfloor>sf 0 (of_nat (length AD_RANK_TIERS)) (''adTier_'' @ show_nat i)\<rfloor>
       = Some ta"
    using t1 by blast
  obtain tb where tb:
    "arrayAt AD_RANK_TIERS
      (min (int (length AD_RANK_TIERS) - 1)
         \<lfloor>sf 0 (of_nat (length AD_RANK_TIERS)) (''adTier_'' @ show_nat i) * (7 / 10) + 1\<rfloor>)
       = Some tb"
    using t2 by blast
  show ?thesis
    unfolding generateIsland_def Let_def
    by (simp only: bb ta tb option.case if_distrib [of "\<lambda>c. case c of None \<Rightarrow> None | Some a \<Rightarrow> _ a"]
        split: if_split) simp
qed

lemma generateIslands_returns:
  assumes "\<And>l i. body l i \<noteq> None"
  shows "snd (generateIslands body is l)"
  using assms by (induction "is" arbitrary: l) (auto split: option.splits)

lemma seeded_intros: "seeded (getDetailedSeedRandom key)" "seeded (getSimpleSeedRandom key)"
  by (auto simp: seeded_def)

lemma generateChunk_returns: "snd (generateChunk x z h s)"
  using generateIslands_returns [OF generateIsland_returns, OF seeded_intros(1)]
    generateIslands_returns [OF generateIsland_returns, OF seeded_intros(2)]
  by (simp add: generateChunk_def Let_def split_def)

section \<open>C2: generating a chunk twice\<close>

text \<open>
  C2: \<open>generateChunk\<close> always returns, and a second call for the same chunk
  coordinates after it (whatever its detail flag) returns at once and leaves the whole
  world as it is: the set of generated chunks and the island table do not change.
\<close>

theorem generateChunk_idempotent:
  "snd (generateChunk x z h s) \<and>
   generateChunk x z h' (fst (generateChunk x z h s)) = (fst (generateChunk x z h s), True)"
proof
  show "snd (generateChunk x z h s)" by (rule generateChunk_returns)
  have "chunkKeyOf x z \<in> set (generatedChunks (fst (generateChunk x z h s)))"
    by (rule generateChunk_generated) (rule generateChunk_returns)
  then show "generateChunk x z h' (fst (generateChunk x z h s))
               = (fst (generateChunk x z h s), True)"
    by (subst generateChunk_def) (simp add: Let_def)
qed

section \<open>The tick: frames\<close>

lemma foldl_appends:
  assumes "\<And>s x. \<exists>added. q (f s x) = q s @ added \<and> list_all W added"
  shows "\<exists>added. q (foldl f s xs) = q s @ added \<and> list_all W added"
proof (induction xs arbitrary: s)
  case Nil
  show ?case by simp
next
  case (Cons x xs)
  obtain a where a: "q (f s x) = q s @ a" "list_all W a" using assms by blast
  obtain b where b: "q (foldl f (f s x) xs) = q (f s x) @ b" "list_all W b"
    using Cons [of "f s x"] by blast
  have "q (foldl f s (x # xs)) = q s @ (a @ b) \<and> list_all W (a @ b)"
    using a b by simp
  then show ?case by blast
qed

lemma queueChunk_frame:
  "timeouts (queueChunk k s) = timeouts s"
  "isGeneratingChunk (queueChunk k s) = isGeneratingChunk s"
  "loadedChunks (queueChunk k s) = loadedChunks s"
  "generatedChunks (queueChunk k s) = generatedChunks s"
  "lowPolyIslands (queueChunk k s) = lowPolyIslands s"
  "scene (queueChunk k s) = scene s"
  "islandData (queueChunk k s) = islandData s"
  by (simp_all add: queueChunk_def)

lemma queueChunk_pending:
  "wfKey k \<Longrightarrow> \<exists>added. pendingChunks (queueChunk k s) = pendingChunks s @ added \<and> list_all wfKey added"
  by (simp add: queueChunk_def)

lemma wfKey_chunkKeyOf: "wfKey (chunkKeyOf x z)"
  by (auto simp: wfKey_def)

lemma trackHighDetail_frame:
  "timeouts (trackHighDetail cx cz s d) = timeouts s"
  "isGeneratingChunk (trackHighDetail cx cz s d) = isGeneratingChunk s"
  "loadedChunks (trackHighDetail cx cz s d) = loadedChunks s"
  "generatedChunks (trackHighDetail cx cz s d) = generatedChunks s"
  "lowPolyIslands (trackHighDetail cx cz s d) = lowPolyIslands s"
  "scene (trackHighDetail cx cz s d) = scene s"
  "islandData (trackHighDetail cx cz s d) = islandData s"
  by (simp_all add: trackHighDetail_def queueChunk_frame)

lemma trackHighDetail_pending:
  "\<exists>added. pendingChunks (trackHighDetail cx cz s d) = pendingChunks s @ added \<and> list_all wfKey added"
  by (simp add: trackHighDetail_def queueChunk_pending wfKey_chunkKeyOf)

lemma trackLowDetail_frame:
  "timeouts (trackLowDetail cx cz s d) = timeouts s"
  "isGeneratingChunk (trackLowDetail cx cz s d) = isGeneratingChunk s"
  "loadedChunks (trackLowDetail cx cz s d) = loadedChunks s"
  "generatedChunks (trackLowDetail cx cz s d) = generatedChunks s"
  "islandData (trackLowDetail cx cz s d) = islandData s"
  by (simp_all add: trackLowDetail_def Let_def queueChunk_frame createPlaceholdersForChunk_frame)

lemma trackLowDetail_pending:
  "\<exists>added. pendingChunks (trackLowDetail cx cz s d) = pendingChunks s @ added \<and> list_all wfKey added"
  using queueChunk_pending [OF wfKey_chunkKeyOf, of "cx + fst d" "cz + snd d" s]
  by (simp add: trackLowDetail_def Let_def createPlaceholdersForChunk_frame)

lemma removeIslandPlaceholder_frame:
  "timeouts (removeIslandPlaceholder i s) = timeouts s"
  "isGeneratingChunk (removeIslandPlaceholder i s) = isGeneratingChunk s"
  "loadedChunks (removeIslandPlaceholder i s) = loadedChunks s"
  "generatedChunks (removeIslandPlaceholder i s) = generatedChunks s"
  "pendingChunks (removeIslandPlaceholder i s) = pendingChunks s"
  "islandData (removeIslandPlaceholder i s) = islandData s"
  by (simp_all add: removeIslandPlaceholder_def Let_def scene_remove_def split: option.splits)

lemma loadHighDetail_frame:
  "timeouts (loadHighDetail s k) = timeouts s"
  "isGeneratingChunk (loadHighDetail s k) = isGeneratingChunk s"
  "generatedChunks (loadHighDetail s k) = generatedChunks s"
  "pendingChunks (loadHighDetail s k) = pendingChunks s"
  by (simp_all add: loadHighDetail_def Let_def forEachIsland_frame split_def
      removeIslandPlaceholder_frame addIslandMesh_frame)

lemma unloadFar_frame:
  "timeouts (unloadFar low s k) = timeouts s"
  "isGeneratingChunk (unloadFar low s k) = isGeneratingChunk s"
  "generatedChunks (unloadFar low s k) = generatedChunks s"
  "pendingChunks (unloadFar low s k) = pendingChunks s"
  "lowPolyIslands (unloadFar low s k) = lowPolyIslands s"
  by (simp_all add: unloadFar_def unloadChunk_frame)

lemma streamChunks_frame:
  "timeouts (streamChunks p s) = timeouts s"
  "isGeneratingChunk (streamChunks p s) = isGeneratingChunk s"
  "generatedChunks (streamChunks p s) = generatedChunks s"
  by (simp_all add: streamChunks_def Let_def foldl_frame unloadFar_frame loadHighDetail_frame
      trackLowDetail_frame trackHighDetail_frame)

lemma streamChunks_pending:
  "\<exists>added. pendingChunks (streamChunks p s) = pendingChunks s @ added \<and> list_all wfKey added"
proof -
  define cx where "cx = \<lfloor>pos_x p / of_int CHUNK_SIZE\<rfloor>"
  define cz where "cz = \<lfloor>pos_z p / of_int CHUNK_SIZE\<rfloor>"
  define s1 where "s1 = foldl (trackHighDetail cx cz) s (offsets highDetailDistance)"
  define s2 where "s2 = foldl (trackLowDetail cx cz) s1 (offsets lowDetailDistance)"
  obtain a where a: "pendingChunks s1 = pendingChunks s @ a" "list_all wfKey a"
    unfolding s1_def
    using foldl_appends [of pendingChunks "trackHighDetail cx cz" wfKey s, OF trackHighDetail_pending]
    by blast
  obtain b where b: "pendingChunks s2 = pendingChunks s1 @ b" "list_all wfKey b"
    unfolding s2_def
    using foldl_appends [of pendingChunks "trackLowDetail cx cz" wfKey s1, OF trackLowDetail_pending]
    by blast
  have "pendingChunks (streamChunks p s) = pendingChunks s2"
    by (simp add: streamChunks_def Let_def foldl_frame unloadFar_frame loadHighDetail_frame
        s2_def s1_def cx_def cz_def)
  then have "pendingChunks (streamChunks p s) = pendingChunks s @ (a @ b) \<and> list_all wfKey (a @ b)"
    using a b by simp
  then show ?thesis by blast
qed

lemma countUpdate_frame:
  "timeouts (countUpdate s) = timeouts s"
  "isGeneratingChunk (countUpdate s) = isGeneratingChunk s"
  "generatedChunks (countUpdate s) = generatedChunks s"
  "pendingChunks (countUpdate s) = pendingChunks s"
  "loadedChunks (countUpdate s) = loadedChunks s"
  "lowPolyIslands (countUpdate s) = lowPolyIslands s"
  "scene (countUpdate s) = scene s"
  "islandData (countUpdate s) = islandData s"
  by (simp_all add: countUpdate_def Let_def)

subsection \<open>The queue\<close>

lemma processNext_busy:
  "isGeneratingChunk s \<or> pendingChunks s = [] \<Longrightarrow> processNextPendingChunk p s = Inr s"
  by (auto simp: processNextPendingChunk_def)

lemma processNext_idle:
  assumes "\<not> isGeneratingChunk s" "pendingChunks s = chunkKeyOf x z # ks"
  shows "\<exists>t. processNextPendingChunk p s =
           Inr (s\<lparr>isGeneratingChunk := True, pendingChunks := ks, timeouts := timeouts s @ [t]\<rparr>)
         \<and> task_chunkX t = x \<and> task_chunkZ t = z"
  using assms
  apply (simp add: processNextPendingChunk_def Let_def split_us_chunkKeyOf parseInt_show_int
      chunkKeyOf_not_Nil)
  apply (intro conjI impI)
   apply (rule exI, rule conjI, rule refl, simp)+
  done

lemma processNext_cases:
  assumes "pendingWf s"
  shows "processNextPendingChunk p s = Inr s \<and> (isGeneratingChunk s \<or> pendingChunks s = [])
       \<or> (\<exists>t. processNextPendingChunk p s =
             Inr (s\<lparr>isGeneratingChunk := True, pendingChunks := tl (pendingChunks s),
                    timeouts := timeouts s @ [t]\<rparr>)
           \<and> \<not> isGeneratingChunk s \<and> pendingChunks s \<noteq> [])"
proof (cases "isGeneratingChunk s \<or> pendingChunks s = []")
  case True
  then show ?thesis using processNext_busy by blast
next
  case False
  then obtain k ks where k: "pendingChunks s = k # ks" by (cases "pendingChunks s") auto
  with assms obtain x z where "k = chunkKeyOf x z" by (auto simp: pendingWf_def wfKey_def)
  with k False processNext_idle [of s x z ks p] show ?thesis by auto
qed

section \<open>Steps and runs\<close>

lemma updateChunks_cases:
  assumes "pendingWf s"
  shows "\<exists>s' added. updateChunks p s = Inr s' \<and> list_all wfKey added \<and>
           generatedChunks s' = generatedChunks s \<and>
           (pendingChunks s' = pendingChunks s @ added \<and> timeouts s' = timeouts s \<and>
              isGeneratingChunk s' = isGeneratingChunk s \<and>
              (isGeneratingChunk s \<or> pendingChunks s @ added = [])
            \<or> (\<exists>t. pendingChunks s' = tl (pendingChunks s @ added) \<and>
                  timeouts s' = timeouts s @ [t] \<and> isGeneratingChunk s' \<and>
                  \<not> isGeneratingChunk s \<and> pendingChunks s @ added \<noteq> []))"
proof -
  define s1 where "s1 = streamChunks p s"
  obtain added where added: "pendingChunks s1 = pendingChunks s @ added" "list_all wfKey added"
    unfolding s1_def using streamChunks_pending by blast
  have fr: "timeouts s1 = timeouts s" "isGeneratingChunk s1 = isGeneratingChunk s"
    "generatedChunks s1 = generatedChunks s"
    by (simp_all add: s1_def streamChunks_frame)
  have wf1: "pendingWf s1" using assms added by (simp add: pendingWf_def)
  from processNext_cases [OF wf1, of p]
  show ?thesis
  proof
    assume a: "processNextPendingChunk p s1 = Inr s1 \<and> (isGeneratingChunk s1 \<or> pendingChunks s1 = [])"
    then have "updateChunks p s = Inr (countUpdate s1)"
      by (simp add: updateChunks_def s1_def)
    with a added fr show ?thesis by (auto simp: countUpdate_frame)
  next
    assume "\<exists>t. processNextPendingChunk p s1 =
             Inr (s1\<lparr>isGeneratingChunk := True, pendingChunks := tl (pendingChunks s1),
                    timeouts := timeouts s1 @ [t]\<rparr>)
           \<and> \<not> isGeneratingChunk s1 \<and> pendingChunks s1 \<noteq> []"
    then obtain t where t: "processNextPendingChunk p s1 =
             Inr (s1\<lparr>isGeneratingChunk := True, pendingChunks := tl (pendingChunks s1),
                    timeouts := timeouts s1 @ [t]\<rparr>)"
      "\<not> isGeneratingChunk s1" "pendingChunks s1 \<noteq> []" by blast
    then have "updateChunks p s = Inr (countUpdate (s1\<lparr>isGeneratingChunk := True,
         pendingChunks := tl (pendingChunks s1), timeouts := timeouts s1 @ [t]\<rparr>))"
      by (simp add: updateChunks_def s1_def)
    with t added fr show ?thesis by (auto simp: countUpdate_frame)
  qed
qed

lemma list_all_tl: "list_all P xs \<Longrightarrow> list_all P (tl xs)"
  by (cases xs) simp_all

lemma updateChunks_pendingWf:
  assumes "pendingWf s" "updateChunks p s = Inr s'"
  shows "pendingWf s'"
proof -
  obtain added where a: "list_all wfKey added"
    "pendingChunks s' = pendingChunks s @ added \<or> pendingChunks s' = tl (pendingChunks s @ added)"
    using updateChunks_cases [OF assms(1), of p] assms(2) by auto
  have "list_all wfKey (pendingChunks s @ added)"
    using assms(1) a(1) by (simp add: pendingWf_def)
  then show ?thesis
    using a(2) list_all_tl [of wfKey "pendingChunks s @ added"] by (auto simp: pendingWf_def)
qed

lemma updateChunks_oneInFlight:
  assumes "pendingWf s" "oneInFlight s" "updateChunks p s = Inr s'"
  shows "oneInFlight s'"
  using updateChunks_cases [OF assms(1), of p] assms(2,3)
  by (auto simp: oneInFlight_def)

lemma runTimeout_frame:
  "timeouts (runTimeout t s) = timeouts s"
  "pendingChunks (runTimeout t s) = pendingChunks s"
  "isGeneratingChunk (runTimeout t s) = False"
  by (simp_all add: runTimeout_def Let_def split_def generateChunk_frame loadChunk_frame)

lemma fireTimeout_pending: "pendingChunks (fireTimeout n s) = pendingChunks s"
  by (simp add: fireTimeout_def runTimeout_frame)

lemma fireTimeout_oneInFlight: "oneInFlight s \<Longrightarrow> oneInFlight (fireTimeout n s)"
  by (cases "timeouts s") (auto simp: oneInFlight_def fireTimeout_def runTimeout_frame)

lemma step_pendingWf: "pendingWf s \<Longrightarrow> step e s = Inr s' \<Longrightarrow> pendingWf s'"
proof (cases e)
  case (Tick p)
  assume "pendingWf s" "step e s = Inr s'"
  then show ?thesis using Tick updateChunks_pendingWf [of s p s'] by (simp add: step_def)
next
  case (Timeout n)
  assume "pendingWf s" "step e s = Inr s'"
  then show ?thesis using Timeout by (auto simp: step_def pendingWf_def fireTimeout_pending)
qed

lemma step_oneInFlight:
  "pendingWf s \<Longrightarrow> oneInFlight s \<Longrightarrow> step e s = Inr s' \<Longrightarrow> oneInFlight s'"
  by (cases e) (auto simp: step_def updateChunks_oneInFlight fireTimeout_oneInFlight)

lemma step_total: "pendingWf s \<Longrightarrow> \<exists>s'. step e s = Inr s'"
proof (cases e)
  case (Tick p)
  assume "pendingWf s"
  then obtain s' where "updateChunks p s = Inr s'" using updateChunks_cases [of s p] by blast
  then show ?thesis using Tick by (simp add: step_def)
next
  case (Timeout n)
  then show ?thesis by (simp add: step_def)
qed

lemma run_total:
  assumes "\<And>e s s'. pendingWf s \<Longrightarrow> I s \<Longrightarrow> step e s = Inr s' \<Longrightarrow> I s'"
    and "pendingWf s0" "I s0"
  shows "\<exists>s. run es s0 = Inr s \<and> pendingWf s \<and> I s"
  using assms(2,3)
proof (induction es arbitrary: s0)
  case Nil
  then show ?case by simp
next
  case (Cons e es)
  obtain s1 where s1: "step e s0 = Inr s1" using step_total [OF Cons.prems(1)] by blast
  have "pendingWf s1" "I s1"
    using step_pendingWf [OF Cons.prems(1) s1] assms(1) [OF Cons.prems s1] by simp_all
  from Cons.IH [OF this] s1 show ?case by simp
qed

lemma loadData_state_frame:
  fixes s :: State
  shows "loadedChunks (loadData s) = loadedChunks s"
  "pendingChunks (loadData s) = pendingChunks s"
  "timeouts (loadData s) = timeouts s"
  "isGeneratingChunk (loadData s) = isGeneratingChunk s"
  "lowPolyIslands (loadData s) = lowPolyIslands s"
  "scene (loadData s) = scene s"
  by (simp_all add: loadData_def Let_def split: item.splits)

lemma startGame_fields:
  "loadedChunks (startGame items chunks rnd) = []"
  "pendingChunks (startGame items chunks rnd) = []"
  "timeouts (startGame items chunks rnd) = []"
  "isGeneratingChunk (startGame items chunks rnd) = False"
  "lowPolyIslands (startGame items chunks rnd) = []"
  "scene (startGame items chunks rnd) = []"
  by (simp_all add: startGame_def loadData_state_frame)

lemma startGame_pendingWf: "pendingWf (startGame items chunks rnd)"
  by (simp add: pendingWf_def startGame_fields)

lemma startGame_oneInFlight: "oneInFlight (startGame items chunks rnd)"
  by (simp add: oneInFlight_def startGame_fields)

section \<open>C6: one generation at a time\<close>

text \<open>
  C6: in every world that a run of ticks and timer callbacks reaches from the start of the
  game (and every such run goes through without a fault), at most one timer callback is
  pending and the busy flag is set exactly when one is. A tick from there takes at most one
  key from the front of the queue (after appending the keys it newly queued); the world
  after it again has at most one pending callback; and while a callback is pending the tick
  takes nothing from the queue and schedules nothing.
\<close>

theorem one_generation_in_flight:
  "\<exists>s. run es (startGame items chunks rnd) = Inr s \<and>
        length (timeouts s) \<le> 1 \<and> (isGeneratingChunk s = (timeouts s \<noteq> [])) \<and>
        (\<forall>p. \<exists>s' added.
           updateChunks p s = Inr s' \<and>
           (pendingChunks s' = pendingChunks s @ added \<or>
            pendingChunks s' = tl (pendingChunks s @ added)) \<and>
           length (timeouts s') \<le> 1 \<and>
           (timeouts s \<noteq> [] \<longrightarrow>
              timeouts s' = timeouts s \<and> pendingChunks s' = pendingChunks s @ added))"
proof -
  have "\<exists>s. run es (startGame items chunks rnd) = Inr s \<and> pendingWf s \<and> oneInFlight s"
    by (rule run_total) (simp_all add: step_oneInFlight startGame_pendingWf startGame_oneInFlight)
  then obtain s where s: "run es (startGame items chunks rnd) = Inr s" "pendingWf s" "oneInFlight s"
    by blast
  have "\<exists>s' added.
           updateChunks p s = Inr s' \<and>
           (pendingChunks s' = pendingChunks s @ added \<or>
            pendingChunks s' = tl (pendingChunks s @ added)) \<and>
           length (timeouts s') \<le> 1 \<and>
           (timeouts s \<noteq> [] \<longrightarrow>
              timeouts s' = timeouts s \<and> pendingChunks s' = pendingChunks s @ added)" for p
  proof -
    obtain s' added where c: "updateChunks p s = Inr s'"
      "pendingChunks s' = pendingChunks s @ added \<and> timeouts s' = timeouts s \<and>
              isGeneratingChunk s' = isGeneratingChunk s \<and>
              (isGeneratingChunk s \<or> pendingChunks s @ added = [])
            \<or> (\<exists>t. pendingChunks s' = tl (pendingChunks s @ added) \<and>
                  timeouts s' = timeouts s @ [t] \<and> isGeneratingChunk s' \<and>
                  \<not> isGeneratingChunk s \<and> pendingChunks s @ added \<noteq> [])"
      using updateChunks_cases [OF s(2), of p] by blast
    have "oneInFlight s'" using updateChunks_oneInFlight [OF s(2,3) c(1)] .
    with c s(3) show ?thesis unfolding oneInFlight_def by blast
  qed
  with s show ?thesis unfolding oneInFlight_def by blast
qed

theorem one_generation_in_flight_witness:
  "\<exists>s. run [Timeout 0] (startGame NoItem NoItem (\<lambda>_. 0)) = Inr s \<and> length (timeouts s) \<le> 1"
  using one_generation_in_flight [of "[Timeout 0]" NoItem NoItem "\<lambda>_. 0"] by blast

section \<open>Placeholders: what removal does\<close>

lemma map_of_filter_key:
  "map_of (filter (\<lambda>e. Q (fst e)) l) k = (if Q k then map_of l k else None)"
  by (induction l) auto

lemma removePlaceholders_fold:
  "lowPolyIslands (foldl (\<lambda>s (pid, placeholder).
        if P pid
        then (scene_remove placeholder s)\<lparr>lowPolyIslands := AList.delete pid (lowPolyIslands s)\<rparr>
        else s) s es)
     = filter (\<lambda>e. \<not> (P (fst e) \<and> fst e \<in> fst ` set es)) (lowPolyIslands s)
   \<and> scene (foldl (\<lambda>s (pid, placeholder).
        if P pid
        then (scene_remove placeholder s)\<lparr>lowPolyIslands := AList.delete pid (lowPolyIslands s)\<rparr>
        else s) s es)
     = filter (\<lambda>c. c \<notin> snd ` {e \<in> set es. P (fst e)}) (scene s)"
proof (induction es arbitrary: s)
  case Nil
  show ?case by simp
next
  case (Cons e es)
  obtain pid ph where e: "e = (pid, ph)" by (cases e)
  show ?case
  proof (cases "P pid")
    case True
    have l: "filter (\<lambda>e. \<not> (P (fst e) \<and> fst e \<in> fst ` set es)) (AList.delete pid (lowPolyIslands s))
          = filter (\<lambda>e. \<not> (P (fst e) \<and> fst e \<in> fst ` set ((pid, ph) # es))) (lowPolyIslands s)"
      using True by (auto simp: AList.delete_eq intro!: filter_cong)
    have sc: "filter (\<lambda>c. c \<notin> snd ` {e \<in> set es. P (fst e)}) (filter (\<lambda>c. c \<noteq> ph) (scene s))
          = filter (\<lambda>c. c \<notin> snd ` {e \<in> set ((pid, ph) # es). P (fst e)}) (scene s)"
      unfolding filter_filter by (rule filter_cong [OF refl]) (use True in force)
    show ?thesis
      using Cons [of "(scene_remove ph s)\<lparr>lowPolyIslands := AList.delete pid (lowPolyIslands s)\<rparr>"]
        True l sc
      by (simp add: e scene_remove_def)
  next
    case False
    have l: "filter (\<lambda>e. \<not> (P (fst e) \<and> fst e \<in> fst ` set es)) (lowPolyIslands s)
          = filter (\<lambda>e. \<not> (P (fst e) \<and> fst e \<in> fst ` set ((pid, ph) # es))) (lowPolyIslands s)"
      using False by (auto intro!: filter_cong)
    have sc: "filter (\<lambda>c. c \<notin> snd ` {e \<in> set es. P (fst e)}) (scene s)
          = filter (\<lambda>c. c \<notin> snd ` {e \<in> set ((pid, ph) # es). P (fst e)}) (scene s)"
      using False by (auto intro!: filter_cong)
    show ?thesis using Cons [of s] False l sc by (simp add: e)
  qed
qed

lemma removePlaceholders_lowPoly:
  "lowPolyIslands (removePlaceholdersForChunk k s)
     = filter (\<lambda>e. \<not> prefix (''placeholder_'' @ k) (fst e)) (lowPolyIslands s)"
proof -
  have "filter (\<lambda>e. \<not> (prefix (''placeholder_'' @ k) (fst e) \<and> fst e \<in> fst ` set (lowPolyIslands s)))
          (lowPolyIslands s)
        = filter (\<lambda>e. \<not> prefix (''placeholder_'' @ k) (fst e)) (lowPolyIslands s)"
    by (auto intro!: filter_cong)
  then show ?thesis
    unfolding removePlaceholdersForChunk_def
    using removePlaceholders_fold [of "prefix (''placeholder_'' @ k)" s "lowPolyIslands s"]
    by simp
qed

lemma removePlaceholders_scene:
  "scene (removePlaceholdersForChunk k s)
     = filter (\<lambda>c. c \<notin> snd ` {e \<in> set (lowPolyIslands s). prefix (''placeholder_'' @ k) (fst e)})
         (scene s)"
  unfolding removePlaceholdersForChunk_def
  using removePlaceholders_fold [of "prefix (''placeholder_'' @ k)" s "lowPolyIslands s"]
  by simp

lemma removePlaceholders_map_of:
  "map_of (lowPolyIslands (removePlaceholdersForChunk k s)) pid
     = (if prefix (''placeholder_'' @ k) pid then None else map_of (lowPolyIslands s) pid)"
  using map_of_filter_key [of "\<lambda>p. \<not> prefix (''placeholder_'' @ k) p" "lowPolyIslands s" pid]
  by (simp add: removePlaceholders_lowPoly)

lemma removePlaceholders_tracked:
  assumes "placeholdersTracked s"
  shows "placeholdersTracked (removePlaceholdersForChunk k s)"
  unfolding placeholdersTracked_def
proof (intro ballI allI impI)
  fix obj n pid
  assume obj: "obj \<in> set (scene (removePlaceholdersForChunk k s))" "obj = PlaceholderMesh n pid"
  then have in_scene: "obj \<in> set (scene s)"
    and kept: "obj \<notin> snd ` {e \<in> set (lowPolyIslands s). prefix (''placeholder_'' @ k) (fst e)}"
    by (simp_all add: removePlaceholders_scene)
  from in_scene obj(2) assms have m: "map_of (lowPolyIslands s) pid = Some obj"
    unfolding placeholdersTracked_def by blast
  then have "(pid, obj) \<in> set (lowPolyIslands s)" by (rule map_of_SomeD)
  with kept have "\<not> prefix (''placeholder_'' @ k) pid" by force
  with m show "map_of (lowPolyIslands (removePlaceholdersForChunk k s)) pid = Some obj"
    by (simp add: removePlaceholders_map_of)
qed

lemma removePlaceholders_noPlaceholder:
  assumes "generatedHaveNoPlaceholder s"
  shows "generatedHaveNoPlaceholder
           ((removePlaceholdersForChunk k s)\<lparr>generatedChunks := setAdd (generatedChunks s) k\<rparr>)"
  using assms
  by (auto simp: generatedHaveNoPlaceholder_def removePlaceholders_map_of setAdd_def
      placeholderIdOf_prefix [simplified] split: if_splits)

section \<open>The tick leaves the rest to \<open>streamChunks\<close>\<close>

lemma processNext_frame_case:
  "case processNextPendingChunk p s of
     Inl f \<Rightarrow> True
   | Inr s' \<Rightarrow> scene s' = scene s \<and> lowPolyIslands s' = lowPolyIslands s \<and>
       loadedChunks s' = loadedChunks s \<and> generatedChunks s' = generatedChunks s \<and>
       islandData s' = islandData s"
  by (simp add: processNextPendingChunk_def Let_def split: option.split)

lemma processNext_frame:
  assumes "processNextPendingChunk p s = Inr s'"
  shows "scene s' = scene s" "lowPolyIslands s' = lowPolyIslands s"
    "loadedChunks s' = loadedChunks s" "generatedChunks s' = generatedChunks s"
    "islandData s' = islandData s"
  using assms processNext_frame_case [where p = p and s = s] by simp_all

lemma updateChunks_frame:
  assumes "updateChunks p s = Inr s'"
  shows "scene s' = scene (streamChunks p s)"
    "lowPolyIslands s' = lowPolyIslands (streamChunks p s)"
    "loadedChunks s' = loadedChunks (streamChunks p s)"
    "generatedChunks s' = generatedChunks (streamChunks p s)"
    "islandData s' = islandData (streamChunks p s)"
proof -
  obtain s1 where s1: "processNextPendingChunk p (streamChunks p s) = Inr s1" "s' = countUpdate s1"
    using assms by (auto simp: updateChunks_def split: sum.splits)
  show "scene s' = scene (streamChunks p s)"
    "lowPolyIslands s' = lowPolyIslands (streamChunks p s)"
    "loadedChunks s' = loadedChunks (streamChunks p s)"
    "generatedChunks s' = generatedChunks (streamChunks p s)"
    "islandData s' = islandData (streamChunks p s)"
    using processNext_frame [OF s1(1)] by (simp_all add: s1(2) countUpdate_frame)
qed

section \<open>Placeholders in the scene are those of the map\<close>

lemma tracked_mono:
  assumes "placeholdersTracked s" "lowPolyIslands s' = lowPolyIslands s"
    "\<And>obj. obj \<in> set (scene s') \<Longrightarrow> obj \<in> set (scene s) \<or> (\<forall>n pid. obj \<noteq> PlaceholderMesh n pid)"
  shows "placeholdersTracked s'"
  unfolding placeholdersTracked_def
proof (intro ballI allI impI)
  fix obj n pid
  assume a: "obj \<in> set (scene s')" "obj = PlaceholderMesh n pid"
  with assms(3) [of obj] have "obj \<in> set (scene s)" by blast
  with assms(1) a(2) have "map_of (lowPolyIslands s) pid = Some obj"
    unfolding placeholdersTracked_def by blast
  then show "map_of (lowPolyIslands s') pid = Some obj" by (simp add: assms(2))
qed

lemma tracked_fields:
  "placeholdersTracked (s\<lparr>islandData := es\<rparr>) = placeholdersTracked s"
  "placeholdersTracked (s\<lparr>loadedChunks := ls\<rparr>) = placeholdersTracked s"
  "placeholdersTracked (s\<lparr>generatedChunks := gs\<rparr>) = placeholdersTracked s"
  "placeholdersTracked (s\<lparr>pendingChunks := ps\<rparr>) = placeholdersTracked s"
  "placeholdersTracked (s\<lparr>isGeneratingChunk := b\<rparr>) = placeholdersTracked s"
  "placeholdersTracked (saveData s) = placeholdersTracked s"
  "placeholdersTracked (snd (Math_random s)) = placeholdersTracked s"
  by (simp_all add: placeholdersTracked_def saveData_def Math_random_def)

lemma addIslandMesh_tracked:
  assumes "placeholdersTracked s"
  shows "placeholdersTracked (snd (addIslandMesh r s))"
proof (rule tracked_mono [OF assms])
  show "lowPolyIslands (snd (addIslandMesh r s)) = lowPolyIslands s"
    by (rule addIslandMesh_frame)
  fix obj
  assume "obj \<in> set (scene (snd (addIslandMesh r s)))"
  then show "obj \<in> set (scene s) \<or> (\<forall>n pid. obj \<noteq> PlaceholderMesh n pid)"
    using addIslandMesh_scene [of r s] by auto
qed

lemma removeIslandMesh_tracked:
  assumes "placeholdersTracked s"
  shows "placeholdersTracked (snd (removeIslandMesh r s))"
proof (rule tracked_mono [OF assms])
  show "lowPolyIslands (snd (removeIslandMesh r s)) = lowPolyIslands s"
    by (rule removeIslandMesh_frame)
  fix obj
  assume "obj \<in> set (scene (snd (removeIslandMesh r s)))"
  then show "obj \<in> set (scene s) \<or> (\<forall>n pid. obj \<noteq> PlaceholderMesh n pid)"
    by (simp add: removeIslandMesh_scene split: option.splits)
qed

lemma removeIslandPlaceholder_tracked:
  assumes "placeholdersTracked s"
  shows "placeholdersTracked (removeIslandPlaceholder i s)"
proof (cases "map_of (lowPolyIslands s) (''placeholder_'' @ i)")
  case None
  then show ?thesis using assms by (simp add: removeIslandPlaceholder_def)
next
  case (Some ph)
  show ?thesis
    unfolding placeholdersTracked_def
  proof (intro ballI allI impI)
    fix obj n pid
    assume "obj \<in> set (scene (removeIslandPlaceholder i s))" "obj = PlaceholderMesh n pid"
    then have o: "obj \<in> set (scene s)" "obj \<noteq> ph" "obj = PlaceholderMesh n pid"
      using Some by (simp_all add: removeIslandPlaceholder_def scene_remove_def)
    with assms have m: "map_of (lowPolyIslands s) pid = Some obj"
      unfolding placeholdersTracked_def by blast
    with Some o(2) have "pid \<noteq> ''placeholder_'' @ i" by auto
    with m Some show "map_of (lowPolyIslands (removeIslandPlaceholder i s)) pid = Some obj"
      by (simp add: removeIslandPlaceholder_def scene_remove_def delete_conv')
  qed
qed

lemma createPlaceholder_tracked:
  assumes "placeholdersTracked s"
  shows "placeholdersTracked (createPlaceholder k s i)"
proof (cases "map_of (lowPolyIslands s) (placeholderIdOf k i)")
  case (Some a)
  then show ?thesis using assms by (simp add: createPlaceholder_def)
next
  case None
  show ?thesis
    unfolding placeholdersTracked_def
  proof (intro ballI allI impI)
    fix obj n pid
    assume a: "obj \<in> set (scene (createPlaceholder k s i))" "obj = PlaceholderMesh n pid"
    then have "obj = PlaceholderMesh (objectCount s) (placeholderIdOf k i) \<or> obj \<in> set (scene s)"
      using None by (auto simp: createPlaceholder_def Let_def scene_add_def Math_random_def)
    then show "map_of (lowPolyIslands (createPlaceholder k s i)) pid = Some obj"
    proof
      assume "obj = PlaceholderMesh (objectCount s) (placeholderIdOf k i)"
      then show ?thesis
        using None a(2)
        by (simp add: createPlaceholder_def Let_def scene_add_def Math_random_def update_conv')
    next
      assume "obj \<in> set (scene s)"
      with assms a(2) have m: "map_of (lowPolyIslands s) pid = Some obj"
        unfolding placeholdersTracked_def by blast
      with None have "pid \<noteq> placeholderIdOf k i" by auto
      with m None show ?thesis
        by (simp add: createPlaceholder_def Let_def scene_add_def Math_random_def update_conv')
    qed
  qed
qed

lemma createPlaceholdersForChunk_tracked:
  "placeholdersTracked s \<Longrightarrow> placeholdersTracked (createPlaceholdersForChunk x z k s)"
  unfolding createPlaceholdersForChunk_def Let_def split_def
  by (rule foldl_inv [where P = placeholdersTracked])
    (simp_all add: createPlaceholder_tracked tracked_fields)

lemma queueChunk_tracked: "placeholdersTracked (queueChunk k s) = placeholdersTracked s"
  by (simp add: queueChunk_def tracked_fields)

lemma loadChunk_tracked: "placeholdersTracked s \<Longrightarrow> placeholdersTracked (loadChunk k s)"
  unfolding loadChunk_def
  by (simp, intro impI, rule forEachIsland_inv [where P = placeholdersTracked])
    (simp_all add: addIslandMesh_tracked tracked_fields)

lemma unloadChunk_tracked: "placeholdersTracked s \<Longrightarrow> placeholdersTracked (unloadChunk k s)"
  unfolding unloadChunk_def
  by (simp, intro impI, rule forEachIsland_inv [where P = placeholdersTracked])
    (simp_all add: removeIslandMesh_tracked tracked_fields)

lemma loadHighDetail_tracked: "placeholdersTracked s \<Longrightarrow> placeholdersTracked (loadHighDetail s k)"
  unfolding loadHighDetail_def Let_def
  by (simp add: tracked_fields, intro impI, rule forEachIsland_inv [where P = placeholdersTracked])
    (simp_all add: addIslandMesh_tracked removeIslandPlaceholder_tracked tracked_fields split_def)

lemma trackHighDetail_tracked:
  "placeholdersTracked s \<Longrightarrow> placeholdersTracked (trackHighDetail cx cz s d)"
  by (simp add: trackHighDetail_def queueChunk_tracked)

lemma trackLowDetail_tracked:
  "placeholdersTracked s \<Longrightarrow> placeholdersTracked (trackLowDetail cx cz s d)"
  by (simp add: trackLowDetail_def Let_def queueChunk_tracked createPlaceholdersForChunk_tracked)

lemma unloadFar_tracked: "placeholdersTracked s \<Longrightarrow> placeholdersTracked (unloadFar low s k)"
  by (simp add: unloadFar_def unloadChunk_tracked)

lemma streamChunks_tracked: "placeholdersTracked s \<Longrightarrow> placeholdersTracked (streamChunks p s)"
  unfolding streamChunks_def Let_def
  by (intro foldl_inv [where P = placeholdersTracked] unloadFar_tracked loadHighDetail_tracked
      trackLowDetail_tracked trackHighDetail_tracked)

lemma generateChunk_tracked:
  "placeholdersTracked s \<Longrightarrow> placeholdersTracked (fst (generateChunk x z h s))"
  by (simp add: generateChunk_def Let_def split_def tracked_fields removePlaceholders_tracked)

lemma runTimeout_tracked: "placeholdersTracked s \<Longrightarrow> placeholdersTracked (runTimeout t s)"
  by (simp add: runTimeout_def Let_def split_def tracked_fields generateChunk_tracked
      loadChunk_tracked)

lemma tracked_timeouts: "placeholdersTracked (s\<lparr>timeouts := ts\<rparr>) = placeholdersTracked s"
  by (simp add: placeholdersTracked_def)

lemma step_tracked:
  assumes "placeholdersTracked s" "step e s = Inr s'"
  shows "placeholdersTracked s'"
proof (cases e)
  case (Tick p)
  then have u: "updateChunks p s = Inr s'" using assms(2) by (simp add: step_def)
  have "placeholdersTracked (streamChunks p s)" using assms(1) by (rule streamChunks_tracked)
  then show ?thesis
    using updateChunks_frame(1,2) [OF u] by (simp add: placeholdersTracked_def)
next
  case (Timeout n)
  then show ?thesis
    using assms by (auto simp: step_def fireTimeout_def runTimeout_tracked tracked_timeouts)
qed

end
